theory Spec2Isabelle
  imports Complex_Main "HOL-Library.Multiset"
begin

section \<open>Strings and the message literals of \<^verbatim>\<open>downloader.py\<close>\<close>

text \<open>
  Python strings are modelled as \<^typ>\<open>string\<close> holding the UTF-8 bytes of the text.
  UTF-8 is self-synchronising, so the substring test \<^verbatim>\<open>a in b\<close> on code points
  and the one on bytes agree. The Chinese literals of the source are spelled out byte
  by byte; the comment beside each gives the literal.
\<close>

definition startswith :: "string \<Rightarrow> string \<Rightarrow> bool" where
  \<comment> \<open>\<^verbatim>\<open>s.startswith(p)\<close>\<close>
  "startswith s p = (take (length p) s = p)"

fun str_in :: "string \<Rightarrow> string \<Rightarrow> bool" where
  \<comment> \<open>\<^verbatim>\<open>p in s\<close> on strings\<close>
  "str_in p [] = (p = [])"
| "str_in p (c # cs) = (startswith (c # cs) p \<or> str_in p cs)"

definition digit_char :: "nat \<Rightarrow> char" where
  "digit_char d = char_of (48 + d)"

function str_nat :: "nat \<Rightarrow> string" where
  "str_nat n = (if n < 10 then [digit_char n] else str_nat (n div 10) @ [digit_char (n mod 10)])"
  by pat_completeness auto
termination
  by (relation "measure (\<lambda>n. n)") auto

declare str_nat.simps [simp del]

definition str_int :: "int \<Rightarrow> string" where
  \<comment> \<open>\<^verbatim>\<open>str(i)\<close> of a Python int\<close>
  "str_int i = (if i < 0 then CHR ''-'' # str_nat (nat (- i)) else str_nat (nat i))"

definition lit_file_exists :: string where
  \<comment> \<open>the literal "wen jian yi cun zai, tiao guo" (file already exists, skipped) of line 103\<close>
  "lit_file_exists =
     [CHR 0xE6, CHR 0x96, CHR 0x87, CHR 0xE4, CHR 0xBB, CHR 0xB6, CHR 0xE5, CHR 0xB7,
      CHR 0xB2, CHR 0xE5, CHR 0xAD, CHR 0x98, CHR 0xE5, CHR 0x9C, CHR 0xA8, CHR 0xEF,
      CHR 0xBC, CHR 0x8C, CHR 0xE8, CHR 0xB7, CHR 0xB3, CHR 0xE8, CHR 0xBF, CHR 0x87]"

definition lit_cannot_connect :: string where
  \<comment> \<open>"wu fa lian jie fu wu qi " (cannot connect to server) of line 113, with its space\<close>
  "lit_cannot_connect =
     [CHR 0xE6, CHR 0x97, CHR 0xA0, CHR 0xE6, CHR 0xB3, CHR 0x95, CHR 0xE8, CHR 0xBF,
      CHR 0x9E, CHR 0xE6, CHR 0x8E, CHR 0xA5, CHR 0xE6, CHR 0x9C, CHR 0x8D, CHR 0xE5,
      CHR 0x8A, CHR 0xA1, CHR 0xE5, CHR 0x99, CHR 0xA8, CHR 0x20]"

definition lit_none_returned :: string where
  \<comment> \<open>"huo qu shu ju fan hui None(ke neng shi wang luo zhong duan)" of line 128\<close>
  "lit_none_returned =
     [CHR 0xE8, CHR 0x8E, CHR 0xB7, CHR 0xE5, CHR 0x8F, CHR 0x96, CHR 0xE6, CHR 0x95,
      CHR 0xB0, CHR 0xE6, CHR 0x8D, CHR 0xAE, CHR 0xE8, CHR 0xBF, CHR 0x94, CHR 0xE5,
      CHR 0x9B, CHR 0x9E, CHR 0x4E, CHR 0x6F, CHR 0x6E, CHR 0x65, CHR 0x28, CHR 0xE5,
      CHR 0x8F, CHR 0xAF, CHR 0xE8, CHR 0x83, CHR 0xBD, CHR 0xE6, CHR 0x98, CHR 0xAF,
      CHR 0xE7, CHR 0xBD, CHR 0x91, CHR 0xE7, CHR 0xBB, CHR 0x9C, CHR 0xE4, CHR 0xB8,
      CHR 0xAD, CHR 0xE6, CHR 0x96, CHR 0xAD, CHR 0x29]"

definition lit_downloaded_pre :: string where
  \<comment> \<open>"cheng gong xia zai " (downloaded) of line 168, with its space\<close>
  "lit_downloaded_pre =
     [CHR 0xE6, CHR 0x88, CHR 0x90, CHR 0xE5, CHR 0x8A, CHR 0x9F, CHR 0xE4, CHR 0xB8,
      CHR 0x8B, CHR 0xE8, CHR 0xBD, CHR 0xBD, CHR 0x20]"

definition lit_downloaded_post :: string where
  \<comment> \<open>" tiao shu ju" (records) of line 168, with its space\<close>
  "lit_downloaded_post =
     [CHR 0x20, CHR 0xE6, CHR 0x9D, CHR 0xA1, CHR 0xE6, CHR 0x95, CHR 0xB0, CHR 0xE6,
      CHR 0x8D, CHR 0xAE]"

definition lit_no_data :: string where
  \<comment> \<open>"dang ri wu shu ju" (no data for the day) of lines 170, 227 and 234\<close>
  "lit_no_data =
     [CHR 0xE5, CHR 0xBD, CHR 0x93, CHR 0xE6, CHR 0x97, CHR 0xA5, CHR 0xE6, CHR 0x97,
      CHR 0xA0, CHR 0xE6, CHR 0x95, CHR 0xB0, CHR 0xE6, CHR 0x8D, CHR 0xAE]"

definition lit_all_failed :: string where
  \<comment> \<open>"chang shi jun shi bai. cuo wu: " (all tries failed. error: ) of line 180\<close>
  "lit_all_failed =
     [CHR 0xE5, CHR 0xB0, CHR 0x9D, CHR 0xE8, CHR 0xAF, CHR 0x95, CHR 0xE5, CHR 0x9D,
      CHR 0x87, CHR 0xE5, CHR 0xA4, CHR 0xB1, CHR 0xE8, CHR 0xB4, CHR 0xA5, CHR 0x2E,
      CHR 0x20, CHR 0xE9, CHR 0x94, CHR 0x99, CHR 0xE8, CHR 0xAF, CHR 0xAF, CHR 0x3A,
      CHR 0x20]"

definition msg_downloaded :: "nat \<Rightarrow> string" where
  "msg_downloaded n = lit_downloaded_pre @ str_nat n @ lit_downloaded_post"

definition msg_no_data :: "int \<Rightarrow> string" where
  "msg_no_data market = lit_no_data @ '' (Exchange:'' @ str_int market @ '')''"

definition msg_all_failed :: "string option \<Rightarrow> string" where
  \<comment> \<open>\<^verbatim>\<open>last_error\<close> is \<^verbatim>\<open>None\<close> until a server try sets it\<close>
  "msg_all_failed last_error =
     lit_all_failed @ (case last_error of None \<Rightarrow> ''None'' | Some e \<Rightarrow> e)"

section \<open>Data model\<close>

type_synonym server = "string \<times> nat"

record stock_row =
  stock_code :: string
  stock_name :: string
  exchange :: string
  tdx_market :: int

text \<open>
  The parquet file of one stock is the data frame of lines 150 to 162: one row per
  record and the four tag columns. A file on disk is such a frame, or what a write that
  did not finish left behind. The file system is a map from paths to files;
  \<^verbatim>\<open>os.path.exists\<close> is membership in its domain.
\<close>

record 'r artifact =
  art_rows :: "'r list"
  art_stock_code :: string
  art_stock_name :: string
  art_exchange :: string
  art_date :: int

datatype 'r disk_file = Parquet "'r artifact" | Partial

type_synonym 'r files = "string \<rightharpoonup> 'r disk_file"

text \<open>
  What is decided outside the program during one fetch. \<^verbatim>\<open>connect\<close> returns a
  truthy value, a falsy one, or raises; \<^verbatim>\<open>get_history_transaction_data\<close> returns
  \<^verbatim>\<open>None\<close>, a list of records (possibly empty), or raises. An exception carries
  its \<^verbatim>\<open>str(e)\<close>. The record type \<open>'r\<close> of one transaction is left abstract.

  The block of lines 150 to 166 (building the data frame, the two casts,
  \<^verbatim>\<open>to_parquet\<close>) runs inside the \<^verbatim>\<open>try\<close> of line 110. On the server try
  \<open>srv\<close>, for the path and the accumulated records, it either completes, or it raises
  and leaves at the path a file or none (pandas and the disk decide which; the program
  removes nothing). \<^verbatim>\<open>astype\<close> is what the casts of lines 159 to 162 make of one
  record when they complete: they act on a column element by element, hence on the
  frame row by row, and they may change the values (\<^verbatim>\<open>int32\<close> wraps around,
  \<^verbatim>\<open>float32\<close> rounds).
\<close>

datatype conn_result = Connected | Refused | ConnectRaises string

datatype 'r response = RNone | RData "'r list" | RRaises string

datatype 'r save_result = Saved | SaveRaises string "'r disk_file option"

record 'r outside =
  connect :: "server \<Rightarrow> conn_result"
  get_history_transaction_data ::
    "server \<Rightarrow> int \<Rightarrow> string \<Rightarrow> nat \<Rightarrow> nat \<Rightarrow> int \<Rightarrow> 'r response"
  astype :: "'r \<Rightarrow> 'r"
  save_data :: "server \<Rightarrow> string \<Rightarrow> 'r list \<Rightarrow> 'r save_result"

datatype netcall = Connect server | GetHistory server nat | Disconnect server

type_synonym fetch_result = "string \<times> bool \<times> string"

definition path_join :: "string \<Rightarrow> string \<Rightarrow> string" where
  \<comment> \<open>\<^verbatim>\<open>os.path.join(a, b)\<close> of posixpath, two components\<close>
  "path_join a b =
     (if startswith b ''/'' then b
      else if a = [] \<or> last a = CHR ''/'' then a @ b
      else a @ ''/'' @ b)"

definition file_path_of :: "string \<Rightarrow> string \<Rightarrow> string" where
  "file_path_of save_dir code = path_join save_dir (code @ ''.parquet'')"

definition py_slice_to :: "'a list \<Rightarrow> int \<Rightarrow> 'a list" where
  \<comment> \<open>\<^verbatim>\<open>xs[:k]\<close>; a negative \<open>k\<close> counts from the end\<close>
  "py_slice_to xs k =
     (if 0 \<le> k then take (nat k) xs else take (length xs - nat (- k)) xs)"

section \<open>The paginated fetch: \<^verbatim>\<open>fetch_single_stock\<close>\<close>

definition batch_size :: nat where
  "batch_size = 2000"

text \<open>
  How the \<^verbatim>\<open>while True\<close> loop of lines 121 to 140 is left: with \<^verbatim>\<open>data is None\<close>
  (line 129), by one of the two other \<^verbatim>\<open>break\<close>s (lines 132 and 138), or by an
  exception of the request. Each carries \<^verbatim>\<open>all_data\<close> as it stands then.
\<close>

datatype 'r loop_exit = ExitNone "'r list" | ExitBreak "'r list" | ExitRaise string

text \<open>
  The loop may run forever (a server that answers every offset with a full page), so it
  is a partial function: \<open>None\<close> is "does not return".
\<close>

partial_function (option) fetch_loop ::
  "'r outside \<Rightarrow> server \<Rightarrow> int \<Rightarrow> string \<Rightarrow> int \<Rightarrow> nat \<Rightarrow> 'r list \<Rightarrow> netcall list
     \<Rightarrow> ('r loop_exit \<times> netcall list) option" where
  "fetch_loop net srv market code date_int start all_data clog =
     (case get_history_transaction_data net srv market code start batch_size date_int of
        RRaises e \<Rightarrow> Some (ExitRaise e, clog @ [GetHistory srv start])
      | RNone \<Rightarrow> Some (ExitNone all_data, clog @ [GetHistory srv start])
      | RData data \<Rightarrow>
          if length data = 0 then Some (ExitBreak all_data, clog @ [GetHistory srv start])
          else if length data < batch_size
          then Some (ExitBreak (all_data @ data), clog @ [GetHistory srv start])
          else fetch_loop net srv market code date_int (start + batch_size)
                 (all_data @ data) (clog @ [GetHistory srv start]))"

text \<open>
  A server that answers the successive requests of one connection, the first at offset
  \<open>start\<close> and each next one \<^verbatim>\<open>batch_size\<close> further, with the given responses;
  and the offsets of the first \<open>n\<close> requests.
\<close>

fun serves ::
  "'r outside \<Rightarrow> server \<Rightarrow> int \<Rightarrow> string \<Rightarrow> int \<Rightarrow> nat \<Rightarrow> 'r response list \<Rightarrow> bool" where
  "serves net srv market code date_int start [] = True"
| "serves net srv market code date_int start (r # rs) =
     (get_history_transaction_data net srv market code start batch_size date_int = r \<and>
      serves net srv market code date_int (start + batch_size) rs)"

fun offsets :: "nat \<Rightarrow> nat \<Rightarrow> nat list" where
  "offsets start 0 = []"
| "offsets start (Suc n) = start # offsets (start + batch_size) n"

definition make_artifact :: "'r outside \<Rightarrow> stock_row \<Rightarrow> int \<Rightarrow> 'r list \<Rightarrow> 'r artifact" where
  \<comment> \<open>lines 150 to 162, when they complete\<close>
  "make_artifact net stock_row date_int all_data =
     \<lparr>art_rows = map (astype net) all_data, art_stock_code = stock_code stock_row,
      art_stock_name = stock_name stock_row, art_exchange = exchange stock_row,
      art_date = date_int\<rparr>"

text \<open>
  The \<^verbatim>\<open>for server in ...\<close> loop of lines 108 to 178, with \<^verbatim>\<open>last_error\<close>, the
  file system and the log of API calls passed along. The result is the returned triple,
  the file system afterwards and the calls made. A falsy \<^verbatim>\<open>connect\<close> continues
  without \<^verbatim>\<open>disconnect\<close>. An exception of \<^verbatim>\<open>connect\<close>, of a request or of the
  block of lines 150 to 166 reaches the \<^verbatim>\<open>except\<close> of line 172, which sets
  \<^verbatim>\<open>last_error\<close>, disconnects and continues with the next server; when the block
  raises, the connection has been closed at line 142 already, so \<^verbatim>\<open>disconnect\<close> is
  called a second time, and the path holds what the failed write left.
  \<^verbatim>\<open>disconnect\<close> itself is taken not to raise. \<^verbatim>\<open>all_data\<close> starts empty on
  every server.
\<close>

fun try_servers ::
  "'r outside \<Rightarrow> stock_row \<Rightarrow> int \<Rightarrow> string \<Rightarrow> 'r files \<Rightarrow> server list \<Rightarrow> string option
     \<Rightarrow> netcall list \<Rightarrow> (fetch_result \<times> 'r files \<times> netcall list) option" where
  "try_servers net stock_row date_int save_dir files [] last_error clog =
     Some ((stock_code stock_row, False, msg_all_failed last_error), files, clog)"
| "try_servers net stock_row date_int save_dir files (srv # rest) last_error clog =
     (case connect net srv of
        ConnectRaises e \<Rightarrow>
          try_servers net stock_row date_int save_dir files rest (Some e)
            (clog @ [Connect srv, Disconnect srv])
      | Refused \<Rightarrow>
          try_servers net stock_row date_int save_dir files rest
            (Some (lit_cannot_connect @ fst srv)) (clog @ [Connect srv])
      | Connected \<Rightarrow>
          (case fetch_loop net srv (tdx_market stock_row) (stock_code stock_row) date_int
                  0 [] (clog @ [Connect srv]) of
             None \<Rightarrow> None
           | Some (ExitRaise e, clog') \<Rightarrow>
               try_servers net stock_row date_int save_dir files rest (Some e)
                 (clog' @ [Disconnect srv])
           | Some (ExitNone all_data, clog') \<Rightarrow>
               try_servers net stock_row date_int save_dir files rest
                 (Some lit_none_returned) (clog' @ [Disconnect srv])
           | Some (ExitBreak all_data, clog') \<Rightarrow>
               if all_data \<noteq> []
               then
                 (case save_data net srv (file_path_of save_dir (stock_code stock_row))
                         all_data of
                    Saved \<Rightarrow>
                      Some ((stock_code stock_row, True, msg_downloaded (length all_data)),
                            files(file_path_of save_dir (stock_code stock_row) \<mapsto>
                                    Parquet (make_artifact net stock_row date_int all_data)),
                            clog' @ [Disconnect srv])
                  | SaveRaises e left \<Rightarrow>
                      try_servers net stock_row date_int save_dir
                        (files(file_path_of save_dir (stock_code stock_row) := left))
                        rest (Some e) (clog' @ [Disconnect srv, Disconnect srv]))
               else Some ((stock_code stock_row, False, msg_no_data (tdx_market stock_row)),
                          files, clog' @ [Disconnect srv])))"

definition fetch_single_stock ::
  "server list \<Rightarrow> 'r outside \<Rightarrow> 'r files \<Rightarrow> stock_row \<Rightarrow> int \<Rightarrow> string \<Rightarrow> int
     \<Rightarrow> (fetch_result \<times> 'r files \<times> netcall list) option" where
  "fetch_single_stock TDX_SERVERS net files stock_row date_int save_dir retry_count =
     (if files (file_path_of save_dir (stock_code stock_row)) \<noteq> None
      then Some ((stock_code stock_row, True, lit_file_exists), files, [])
      else try_servers net stock_row date_int save_dir files
             (py_slice_to TDX_SERVERS retry_count) None [])"

section \<open>Rounds: \<^verbatim>\<open>_download_batch\<close> and \<^verbatim>\<open>download_all_stocks\<close>\<close>

datatype py_error = ValueError | ZeroDivisionError | OverflowError

datatype probe_result = ProbeOk | ProbeNoReply | ProbeRaises

text \<open>
  The world outside the program: what the servers answer to the fetch of a row in round
  \<open>r\<close> (round 0 is the first download, round \<open>r\<close> the \<open>r\<close>-th retry), the rank
  at which the fetch of a row completes in round \<open>r\<close>, and what each server
  answers to the probe of \<^verbatim>\<open>test_connectivity\<close>.
\<close>

record 'r world =
  net :: "nat \<Rightarrow> stock_row \<Rightarrow> 'r outside"
  finish :: "nat \<Rightarrow> stock_row \<Rightarrow> nat"
  probe :: "server \<Rightarrow> probe_result"

definition test_connectivity :: "(server \<Rightarrow> probe_result) \<Rightarrow> server list \<Rightarrow> server list" where
  "test_connectivity pr TDX_SERVERS = filter (\<lambda>srv. pr srv = ProbeOk) TDX_SERVERS"

text \<open>
  The loop over \<^verbatim>\<open>as_completed(futures)\<close> of lines 276 to 293. The thread pool is
  modelled by one of its linearisations: the fetches run one after the other in
  completion order, each on the file system the previous one left. A fetch reads and
  writes only the path of its own code. The progress callback is called inside a
  \<^verbatim>\<open>try\<close> that swallows everything and is left out.
\<close>

fun run_fetches ::
  "server list \<Rightarrow> (stock_row \<Rightarrow> 'r outside) \<Rightarrow> int \<Rightarrow> string \<Rightarrow> stock_row list \<Rightarrow> 'r files
     \<Rightarrow> nat \<Rightarrow> (string \<times> string) list \<Rightarrow> netcall list
     \<Rightarrow> (nat \<times> (string \<times> string) list \<times> 'r files \<times> netcall list) option" where
  "run_fetches TDX_SERVERS nt date_int output_dir [] files success_count failed_list clog =
     Some (success_count, failed_list, files, clog)"
| "run_fetches TDX_SERVERS nt date_int output_dir (row # rows) files success_count failed_list clog =
     (case fetch_single_stock TDX_SERVERS (nt row) files row date_int output_dir 3 of
        None \<Rightarrow> None
      | Some ((code, success, message), files', calls) \<Rightarrow>
          if success
          then run_fetches TDX_SERVERS nt date_int output_dir rows files'
                 (success_count + 1) failed_list (clog @ calls)
          else run_fetches TDX_SERVERS nt date_int output_dir rows files'
                 success_count (failed_list @ [(code, message)]) (clog @ calls))"

text \<open>
  \<^verbatim>\<open>ThreadPoolExecutor(max_workers=n)\<close> raises \<^verbatim>\<open>ValueError\<close> for \<open>n \<le> 0\<close>.
  The completion order is the submission order sorted by the completion rank.
\<close>

definition download_batch ::
  "server list \<Rightarrow> (stock_row \<Rightarrow> 'r outside) \<Rightarrow> (stock_row \<Rightarrow> nat) \<Rightarrow> int \<Rightarrow> string \<Rightarrow> int
     \<Rightarrow> stock_row list \<Rightarrow> 'r files
     \<Rightarrow> (py_error + nat \<times> (string \<times> string) list \<times> 'r files \<times> netcall list) option" where
  "download_batch TDX_SERVERS nt fin date_int output_dir max_workers stocks_df files =
     (if max_workers \<le> 0 then Some (Inl ValueError)
      else case run_fetches TDX_SERVERS nt date_int output_dir (sort_key fin stocks_df)
                  files 0 [] [] of
             None \<Rightarrow> None
           | Some r \<Rightarrow> Some (Inr r))"

text \<open>
  One entry per call of \<^verbatim>\<open>_download_batch\<close>: its \<^verbatim>\<open>max_workers\<close>, the rows it
  was given and the failure list it returned.
\<close>

type_synonym round_info = "int \<times> stock_row list \<times> (string \<times> string) list"

record 'r rounds_end =
  end_servers :: "server list"
  end_output_dir :: string
  end_success_count :: nat
  end_failed_list :: "(string \<times> string) list"
  end_files :: "'r files"
  end_trace :: "round_info list"
  end_calls :: "netcall list"

text \<open>
  Line 234: \<^verbatim>\<open>len(failed_list) > len(self.stocks_df) * 0.9 and "..." in failed_list[0][1]\<close>.
  Python compares the int with the float exactly, and for a universe below \<open>2^50\<close>
  rows the product \<^verbatim>\<open>n * 0.9\<close> is the double nearest to \<open>9n/10\<close>, which lies on
  the same side of every integer as \<open>9n/10\<close> itself; the test is \<open>10 f > 9 n\<close>.
  On an empty list the left conjunct is false and the index is not evaluated.
\<close>

definition skip_retry :: "stock_row list \<Rightarrow> (string \<times> string) list \<Rightarrow> bool" where
  "skip_retry stocks_df failed_list =
     (case failed_list of
        [] \<Rightarrow> False
      | (code, reason) # _ \<Rightarrow>
          10 * length failed_list > 9 * length stocks_df \<and> str_in lit_no_data reason)"

definition retry_df_of :: "stock_row list \<Rightarrow> (string \<times> string) list \<Rightarrow> stock_row list" where
  \<comment> \<open>lines 242 and 243\<close>
  "retry_df_of stocks_df failed_list =
     (let failed_codes = map fst failed_list
      in filter (\<lambda>row. stock_code row \<in> set failed_codes) stocks_df)"

text \<open>The \<^verbatim>\<open>while failed_list and retry_round <= max_retry\<close> loop of lines 238 to 251.\<close>

function retry_rounds ::
  "server list \<Rightarrow> stock_row list \<Rightarrow> 'r world \<Rightarrow> int \<Rightarrow> string \<Rightarrow> int \<Rightarrow> int \<Rightarrow> nat
     \<Rightarrow> nat \<Rightarrow> (string \<times> string) list \<Rightarrow> 'r files \<Rightarrow> round_info list \<Rightarrow> netcall list
     \<Rightarrow> (py_error + 'r rounds_end) option" where
  "retry_rounds TDX_SERVERS stocks_df w date_int output_dir max_workers max_retry retry_round
       success_count failed_list files trace clog =
     (if failed_list \<noteq> [] \<and> int retry_round \<le> max_retry
      then
        (case download_batch TDX_SERVERS (net w retry_round) (finish w retry_round) date_int
                output_dir max_workers (retry_df_of stocks_df failed_list) files of
           None \<Rightarrow> None
         | Some (Inl e) \<Rightarrow> Some (Inl e)
         | Some (Inr (retry_success, retry_failed, files', calls)) \<Rightarrow>
             retry_rounds TDX_SERVERS stocks_df w date_int output_dir max_workers max_retry
               (retry_round + 1) (success_count + retry_success) retry_failed files'
               (trace @ [(max_workers, retry_df_of stocks_df failed_list, retry_failed)])
               (clog @ calls))
      else Some (Inr \<lparr>end_servers = TDX_SERVERS, end_output_dir = output_dir,
                      end_success_count = success_count, end_failed_list = failed_list,
                      end_files = files, end_trace = trace, end_calls = clog\<rparr>))"
  by pat_completeness auto
termination
  by (relation "measure (\<lambda>(S, df, w, d, dir, mw, max_retry, retry_round, rest).
                   nat (max_retry + 1 - int retry_round))") auto

declare retry_rounds.simps [simp del]

text \<open>
  Lines 197 to 251 of \<^verbatim>\<open>download_all_stocks\<close>: the probe, the first download, the
  test that skips the retries, and the retry rounds. \<^verbatim>\<open>os.makedirs\<close> and the
  logging are left out.
\<close>

definition probed_servers :: "(server \<Rightarrow> probe_result) \<Rightarrow> server list \<Rightarrow> server list" where
  \<comment> \<open>lines 198 to 203: \<^verbatim>\<open>self.TDX_SERVERS\<close> after the probe\<close>
  "probed_servers pr TDX_SERVERS =
     (let valid_servers = test_connectivity pr TDX_SERVERS
      in if valid_servers \<noteq> [] then valid_servers else TDX_SERVERS)"

definition output_dir_of :: "string option \<Rightarrow> int \<Rightarrow> string" where
  \<comment> \<open>lines 206 and 207\<close>
  "output_dir_of output_dir date_int =
     (case output_dir of None \<Rightarrow> ''data/tick_'' @ str_int date_int | Some d \<Rightarrow> d)"

definition download_rounds ::
  "server list \<Rightarrow> stock_row list \<Rightarrow> 'r world \<Rightarrow> 'r files \<Rightarrow> int \<Rightarrow> int \<Rightarrow> string option \<Rightarrow> int
     \<Rightarrow> (py_error + 'r rounds_end) option" where
  "download_rounds TDX_SERVERS stocks_df w files date_int max_workers output_dir max_retry =
     (let servers = probed_servers (probe w) TDX_SERVERS;
          dir = output_dir_of output_dir date_int
      in case download_batch servers (net w 0) (finish w 0) date_int dir max_workers
                stocks_df files of
           None \<Rightarrow> None
         | Some (Inl e) \<Rightarrow> Some (Inl e)
         | Some (Inr (success_count, failed_list, files', calls)) \<Rightarrow>
             if skip_retry stocks_df failed_list
             then Some (Inr \<lparr>end_servers = servers, end_output_dir = dir,
                             end_success_count = success_count, end_failed_list = failed_list,
                             end_files = files',
                             end_trace = [(max_workers, stocks_df, failed_list)],
                             end_calls = calls\<rparr>)
             else retry_rounds servers stocks_df w date_int dir max_workers max_retry 1
                    success_count failed_list files'
                    [(max_workers, stocks_df, failed_list)] calls)"

text \<open>
  \<^verbatim>\<open>_generate_report\<close>: the counts it logs and the failure file it writes when the
  list is not empty. The percentages divide by \<^verbatim>\<open>total\<close>, which raises
  \<^verbatim>\<open>ZeroDivisionError\<close> on an empty universe.
\<close>

record report =
  rep_total :: nat
  rep_success :: nat
  rep_failed :: nat
  rep_failed_csv :: "(string \<times> string) list option"

definition generate_report ::
  "stock_row list \<Rightarrow> nat \<Rightarrow> (string \<times> string) list \<Rightarrow> py_error + report" where
  "generate_report stocks_df success_count failed_list =
     (let total = length stocks_df
      in if total = 0 then Inl ZeroDivisionError
         else Inr \<lparr>rep_total = total, rep_success = success_count,
                    rep_failed = length failed_list,
                    rep_failed_csv = (if failed_list \<noteq> [] then Some failed_list else None)\<rparr>)"

definition download_all_stocks ::
  "server list \<Rightarrow> stock_row list \<Rightarrow> 'r world \<Rightarrow> 'r files \<Rightarrow> int \<Rightarrow> int \<Rightarrow> string option \<Rightarrow> int
     \<Rightarrow> (py_error + 'r rounds_end \<times> report) option" where
  "download_all_stocks TDX_SERVERS stocks_df w files date_int max_workers output_dir max_retry =
     (case download_rounds TDX_SERVERS stocks_df w files date_int max_workers output_dir
             max_retry of
        None \<Rightarrow> None
      | Some (Inl e) \<Rightarrow> Some (Inl e)
      | Some (Inr e) \<Rightarrow>
          (case generate_report stocks_df (end_success_count e) (end_failed_list e) of
             Inl err \<Rightarrow> Some (Inl err)
           | Inr rep \<Rightarrow> Some (Inr (e, rep))))"

section \<open>The point lookup of \<^verbatim>\<open>download_pre_close.py\<close>\<close>

definition secid_of :: "string \<Rightarrow> string" where
  \<comment> \<open>lines 24 to 31\<close>
  "secid_of code =
     (if startswith code ''6'' then ''1.'' @ code
      else if startswith code ''0'' \<or> startswith code ''3'' then ''0.'' @ code
      else if startswith code ''8'' \<or> startswith code ''4'' then ''0.'' @ code
      else ''0.'' @ code)"

text \<open>
  A parsed JSON value, with Python's truthiness. A number is an int or a float and only
  its being zero is ever tested. A dict is the list of its items, with distinct keys.
\<close>

datatype json =
  JNull | JBool bool | JNum real | JStr string | JArr "json list" | JObj "(string \<times> json) list"

fun truthy :: "json \<Rightarrow> bool" where
  "truthy JNull = False"
| "truthy (JBool b) = b"
| "truthy (JNum x) = (x \<noteq> 0)"
| "truthy (JStr s) = (s \<noteq> [])"
| "truthy (JArr xs) = (xs \<noteq> [])"
| "truthy (JObj kvs) = (kvs \<noteq> [])"

definition dict_get :: "(string \<times> json) list \<Rightarrow> string \<Rightarrow> json" where
  \<comment> \<open>\<^verbatim>\<open>d.get(k)\<close>, which is \<^verbatim>\<open>None\<close> for a missing key\<close>
  "dict_get kvs k = (case map_of kvs k of None \<Rightarrow> JNull | Some v \<Rightarrow> v)"

text \<open>
  What \<^verbatim>\<open>requests.get\<close> does for a \<^verbatim>\<open>secid\<close>: it raises, or it returns a
  response with a status code and a body on which \<^verbatim>\<open>response.json()\<close> either
  raises (\<open>None\<close>) or yields a value.
\<close>

datatype http_result = HttpRaises | HttpResponse int "json option"

text \<open>
  The result is the returned dict, as the pair of its two values, or \<open>None\<close>; beside
  it the list of the requests issued. \<^verbatim>\<open>.get\<close> on a value that is not a dict raises
  \<^verbatim>\<open>AttributeError\<close>, which the \<^verbatim>\<open>except\<close> of line 61 swallows.
\<close>

definition get_stock_pre_close_single ::
  "(string \<Rightarrow> http_result) \<Rightarrow> string \<Rightarrow> (string \<times> json) option \<times> string list" where
  "get_stock_pre_close_single http_get code =
     (let secid = secid_of code
      in (case http_get secid of
            HttpRaises \<Rightarrow> None
          | HttpResponse status_code body \<Rightarrow>
              if status_code \<noteq> 200 then None
              else (case body of
                      None \<Rightarrow> None
                    | Some (JObj data) \<Rightarrow>
                        if truthy (dict_get data ''data'')
                        then (case dict_get data ''data'' of
                                JObj inner \<Rightarrow>
                                  if truthy (dict_get inner ''f60'')
                                  then (let pre_close = dict_get inner ''f60''
                                        in if pre_close = JStr ''-'' then None
                                           else Some (code, pre_close))
                                  else None
                              | _ \<Rightarrow> None)
                        else None
                    | Some _ \<Rightarrow> None),
          [secid]))"

fun pre_close_fetches ::
  "(string \<Rightarrow> http_result) \<Rightarrow> string list \<Rightarrow> (string \<times> json) list \<Rightarrow> string list
     \<Rightarrow> (string \<times> json) list \<times> string list" where
  "pre_close_fetches http_get [] results failed_codes = (results, failed_codes)"
| "pre_close_fetches http_get (code # codes) results failed_codes =
     (case fst (get_stock_pre_close_single http_get code) of
        Some result \<Rightarrow> pre_close_fetches http_get codes (results @ [result]) failed_codes
      | None \<Rightarrow> pre_close_fetches http_get codes results (failed_codes @ [code]))"

definition download_batch_internal ::
  "(string \<Rightarrow> http_result) \<Rightarrow> (string \<Rightarrow> nat) \<Rightarrow> string list \<Rightarrow> int
     \<Rightarrow> py_error + (string \<times> json) list \<times> string list" where
  "download_batch_internal http_get fin stock_codes max_workers =
     (if max_workers \<le> 0 then Inl ValueError
      else Inr (pre_close_fetches http_get (sort_key fin stock_codes) [] []))"

text \<open>
  \<^verbatim>\<open>int(n * 0.5)\<close> of line 124. The int is first converted to a double, to the nearest
  one with ties to the even mantissa, and the conversion raises \<^verbatim>\<open>OverflowError\<close>
  from \<open>2^1024\<close> on. A double of magnitude \<open>2^53\<close> or more is an integer, so the
  converted value is given as an int. Halving a double of this range is exact, and
  \<^verbatim>\<open>int\<close> truncates towards zero.
\<close>

function bit_length :: "nat \<Rightarrow> nat" where
  "bit_length n = (if n = 0 then 0 else Suc (bit_length (n div 2)))"
  by pat_completeness auto
termination
  by (relation "measure (\<lambda>n. n)") auto

declare bit_length.simps [simp del]

definition float_of_int :: "int \<Rightarrow> py_error + int" where
  "float_of_int n =
     (let a = nat \<bar>n\<bar>;
          k = bit_length a - 53;
          q = a div 2 ^ k;
          r = a mod 2 ^ k;
          m = (if 2 ^ k < 2 * r \<or> (2 * r = 2 ^ k \<and> odd q) then q + 1 else q) * 2 ^ k
      in if 2 ^ 1024 \<le> m then Inl OverflowError else Inr (sgn n * int m))"

definition py_int_half :: "int \<Rightarrow> py_error + int" where
  "py_int_half n =
     (case float_of_int n of
        Inl e \<Rightarrow> Inl e
      | Inr f \<Rightarrow> Inr (if 0 \<le> f then f div 2 else - ((- f) div 2)))"

definition retry_workers_of :: "int \<Rightarrow> py_error + int" where
  \<comment> \<open>line 124\<close>
  "retry_workers_of max_workers =
     (case py_int_half max_workers of Inl e \<Rightarrow> Inl e | Inr h \<Rightarrow> Inr (max 5 h))"

record pc_world =
  pc_http :: "nat \<Rightarrow> string \<Rightarrow> http_result"
  pc_finish :: "nat \<Rightarrow> string \<Rightarrow> nat"

text \<open>
  The \<^verbatim>\<open>for i in range(max_retries)\<close> loop of lines 118 to 129, over the values of
  \<open>i\<close> still to come. The trace holds, for each call of
  \<^verbatim>\<open>_download_batch_internal\<close>, its \<^verbatim>\<open>max_workers\<close> and the codes it was given.
\<close>

fun pre_close_retries ::
  "pc_world \<Rightarrow> int \<Rightarrow> nat list \<Rightarrow> (string \<times> json) list \<Rightarrow> string list \<Rightarrow> (int \<times> string list) list
     \<Rightarrow> py_error + (string \<times> json) list \<times> string list \<times> (int \<times> string list) list" where
  "pre_close_retries w max_workers [] all_results failed trace = Inr (all_results, failed, trace)"
| "pre_close_retries w max_workers (i # rest) all_results failed trace =
     (if failed = [] then Inr (all_results, failed, trace)
      else
        (case retry_workers_of max_workers of
           Inl e \<Rightarrow> Inl e
         | Inr retry_workers \<Rightarrow>
             (case download_batch_internal (pc_http w (i + 1)) (pc_finish w (i + 1)) failed
                     retry_workers of
                Inl e \<Rightarrow> Inl e
              | Inr (results, new_failed) \<Rightarrow>
                  pre_close_retries w max_workers rest (all_results @ results) new_failed
                    (trace @ [(retry_workers, failed)]))))"

definition download_pre_close_parallel ::
  "pc_world \<Rightarrow> string list \<Rightarrow> int \<Rightarrow> int
     \<Rightarrow> py_error + (string \<times> json) list \<times> string list \<times> (int \<times> string list) list" where
  "download_pre_close_parallel w stock_codes max_workers max_retries =
     (case download_batch_internal (pc_http w 0) (pc_finish w 0) stock_codes max_workers of
        Inl e \<Rightarrow> Inl e
      | Inr (results, failed) \<Rightarrow>
          pre_close_retries w max_workers [0..<nat max_retries] results failed
            [(max_workers, stock_codes)])"

section \<open>Observations on a run\<close>

text \<open>What a run is observed by: the success count, the failure list and the trace.\<close>

definition summary ::
  "(py_error + 'r rounds_end) option \<Rightarrow> (nat \<times> (string \<times> string) list \<times> round_info list) option" where
  "summary r =
     (case r of
        Some (Inr e) \<Rightarrow> Some (end_success_count e, end_failed_list e, end_trace e)
      | _ \<Rightarrow> None)"

text \<open>
  A trace of \<^verbatim>\<open>download_all_stocks\<close> in which every batch has the configured
  \<^verbatim>\<open>max_workers\<close>, no batch has more workers than the one before, and every batch
  after the first is given the rows of the universe whose code is in the failure list
  of the batch before.
\<close>

fun trace_ok :: "int \<Rightarrow> stock_row list \<Rightarrow> round_info list \<Rightarrow> bool" where
  "trace_ok mw df [] = True"
| "trace_ok mw df [(m, rows, fl)] = (m = mw)"
| "trace_ok mw df ((m, rows, fl) # (m', rows', fl') # rest) =
     (m = mw \<and> m' \<le> m \<and> rows' = retry_df_of df fl \<and> trace_ok mw df ((m', rows', fl') # rest))"

section \<open>Example inputs\<close>

definition ex_server :: server where
  "ex_server = (''121.37.207.165'', 7709)"

definition ex_server2 :: server where
  "ex_server2 = (''202.108.253.131'', 7709)"

definition ex_row :: stock_row where
  "ex_row = \<lparr>stock_code = ''600000'', stock_name = ''PFYH'', exchange = ''SH'', tdx_market = 1\<rparr>"

definition ex_net_pages :: "nat outside" where
  "ex_net_pages =
     \<lparr>connect = (\<lambda>srv. Connected),
      get_history_transaction_data = (\<lambda>srv market code start count date_int.
         if start = 0 then RData (replicate 2000 7)
         else if start = 2000 then RData [8]
         else RNone),
      astype = (\<lambda>r. r),
      save_data = (\<lambda>srv path all_data. Saved)\<rparr>"

definition ex_net_sentinel :: "nat outside" where
  "ex_net_sentinel =
     \<lparr>connect = (\<lambda>srv. Connected),
      get_history_transaction_data = (\<lambda>srv market code start count date_int.
         if start = 0 then RData (replicate 2000 7) else RNone),
      astype = (\<lambda>r. r),
      save_data = (\<lambda>srv path all_data. Saved)\<rparr>"


text \<open>
  The cast of the \<^verbatim>\<open>vol\<close> column to \<^verbatim>\<open>int32\<close>, for records that are just a
  volume.
\<close>

definition int32_of :: "int \<Rightarrow> int" where
  "int32_of v = (v + 2147483648) mod 4294967296 - 2147483648"

definition ex_net_vol :: "int outside" where
  "ex_net_vol =
     \<lparr>connect = (\<lambda>srv. Connected),
      get_history_transaction_data = (\<lambda>srv market code start count date_int.
         if start = 0 then RData [3000000000, 12] else RData []),
      astype = int32_of,
      save_data = (\<lambda>srv path all_data. Saved)\<rparr>"

text \<open>
  Scenario A of the specification, on the batch size of the source: X has two full
  pages and a last page of one record, Y meets the sentinel on the first server and an empty page on the second,
  Z gets an empty page at once. Every probe succeeds and fetches complete in
  submission order.
\<close>

definition row_X :: stock_row where
  "row_X = \<lparr>stock_code = ''000001'', stock_name = ''X'', exchange = ''SZ'', tdx_market = 0\<rparr>"

definition row_Y :: stock_row where
  "row_Y = \<lparr>stock_code = ''000002'', stock_name = ''Y'', exchange = ''SZ'', tdx_market = 0\<rparr>"

definition row_Z :: stock_row where
  "row_Z = \<lparr>stock_code = ''000003'', stock_name = ''Z'', exchange = ''SZ'', tdx_market = 0\<rparr>"

definition records_X :: "nat list" where
  "records_X = replicate 2000 8 @ replicate 2000 8 @ [8]"

definition net_A :: "nat outside" where
  "net_A =
     \<lparr>connect = (\<lambda>srv. Connected),
      get_history_transaction_data = (\<lambda>srv market code start count date_int.
         if code = ''000001''
         then (if start = 0 \<or> start = 2000 then RData (replicate 2000 8)
               else if start = 4000 then RData [8]
               else RData [])
         else if code = ''000002'' \<and> srv = ex_server then RNone
         else RData []),
      astype = (\<lambda>r. r),
      save_data = (\<lambda>srv path all_data. Saved)\<rparr>"

definition world_A :: "nat world" where
  "world_A = \<lparr>net = (\<lambda>r row. net_A), finish = (\<lambda>r row. 0), probe = (\<lambda>srv. ProbeOk)\<rparr>"

text \<open>Answers of the point-lookup endpoint.\<close>

definition ex_http_placeholder :: "string \<Rightarrow> http_result" where
  "ex_http_placeholder secid =
     HttpResponse 200 (Some (JObj [(''rc'', JNum 0), (''data'', JObj [(''f60'', JStr ''-'')])]))"

definition ex_http_price :: "string \<Rightarrow> http_result" where
  "ex_http_price secid =
     HttpResponse 200 (Some (JObj [(''rc'', JNum 0), (''data'', JObj [(''f60'', JNum 1234)])]))"

definition ex_http_down :: "string \<Rightarrow> http_result" where
  "ex_http_down secid = HttpRaises"

definition ex_pc_world_down :: pc_world where
  "ex_pc_world_down = \<lparr>pc_http = (\<lambda>r. ex_http_down), pc_finish = (\<lambda>r code. 0)\<rparr>"

text \<open>
  Scenario C: ten targets in the world of Scenario A, so that X succeeds and the nine
  others end with no data; and the failure list that round 0 then returns.
\<close>

definition row_N :: "string \<Rightarrow> stock_row" where
  "row_N code = \<lparr>stock_code = code, stock_name = ''N'', exchange = ''SZ'', tdx_market = 0\<rparr>"

definition universe_C :: "stock_row list" where
  "universe_C =
     [row_X, row_Y, row_Z, row_N ''000004'', row_N ''000005'', row_N ''000006'',
      row_N ''000007'', row_N ''000008'', row_N ''000009'', row_N ''000010'']"

definition failures_C :: "(string \<times> string) list" where
  "failures_C =
     [(''000002'', msg_no_data 0), (''000003'', msg_no_data 0), (''000004'', msg_no_data 0),
      (''000005'', msg_no_data 0), (''000006'', msg_no_data 0), (''000007'', msg_no_data 0),
      (''000008'', msg_no_data 0), (''000009'', msg_no_data 0), (''000010'', msg_no_data 0)]"

text \<open>
  Scenario D: one target that meets the sentinel on every server in rounds 0, 1 and 2
  and is served its two pages from round 3 on; and the failure recorded for it.
\<close>

definition world_D :: "nat world" where
  "world_D =
     \<lparr>net = (\<lambda>r row. if r < 3 then ex_net_sentinel else ex_net_pages),
      finish = (\<lambda>r row. 0), probe = (\<lambda>srv. ProbeOk)\<rparr>"

definition failure_D :: "string \<times> string" where
  "failure_D = (''600000'', msg_all_failed (Some lit_none_returned))"

section \<open>Properties of the paginated fetch\<close>

lemma fetch_loop_pages:
  "serves nt srv market code date_int start (map RData ps) \<Longrightarrow> ps \<noteq> [] \<Longrightarrow>
   \<forall>p \<in> set (butlast ps). length p = batch_size \<Longrightarrow> length (last ps) < batch_size \<Longrightarrow>
   fetch_loop nt srv market code date_int start acc clog =
     Some (ExitBreak (acc @ concat ps), clog @ map (GetHistory srv) (offsets start (length ps)))"
proof (induction ps arbitrary: start acc clog)
  case Nil
  then show ?case by simp
next
  case (Cons p ps)
  show ?case
  proof (cases "ps = []")
    case True
    with Cons.prems show ?thesis
      by (subst fetch_loop.simps) simp
  next
    case False
    with Cons.prems have len: "length p = batch_size" by simp
    from Cons.prems False have
      "fetch_loop nt srv market code date_int (start + batch_size) (acc @ p) (clog @ [GetHistory srv start]) =
        Some (ExitBreak ((acc @ p) @ concat ps),
              (clog @ [GetHistory srv start]) @ map (GetHistory srv) (offsets (start + batch_size) (length ps)))"
      by (intro Cons.IH) auto
    moreover from len have "p \<noteq> []" "\<not> length p < batch_size"
      by (auto simp: batch_size_def)
    ultimately show ?thesis using Cons.prems
      by (subst fetch_loop.simps) simp
  qed
qed

lemma fetch_loop_sentinel:
  "serves nt srv market code date_int start (map RData ps @ [RNone]) \<Longrightarrow>
   \<forall>p \<in> set ps. batch_size \<le> length p \<Longrightarrow>
   fetch_loop nt srv market code date_int start acc clog =
     Some (ExitNone (acc @ concat ps),
           clog @ map (GetHistory srv) (offsets start (Suc (length ps))))"
proof (induction ps arbitrary: start acc clog)
  case Nil
  then show ?case by (subst fetch_loop.simps) simp
next
  case (Cons p ps)
  from Cons.prems have len: "batch_size \<le> length p" by simp
  from Cons.prems have
    "fetch_loop nt srv market code date_int (start + batch_size) (acc @ p) (clog @ [GetHistory srv start]) =
      Some (ExitNone ((acc @ p) @ concat ps),
            (clog @ [GetHistory srv start]) @ map (GetHistory srv) (offsets (start + batch_size) (Suc (length ps))))"
    by (intro Cons.IH) auto
  moreover from len have "p \<noteq> []" "\<not> length p < batch_size"
    by (auto simp: batch_size_def)
  ultimately show ?case using Cons.prems
    by (subst fetch_loop.simps) simp
qed




lemma try_servers_sentinel:
  assumes "\<forall>srv \<in> set srvs. connect nt srv = Connected \<and>
             (\<exists>ps. (\<forall>p \<in> set ps. batch_size \<le> length p) \<and>
                   serves nt srv (tdx_market row) (stock_code row) date_int 0 (map RData ps @ [RNone]))"
  shows "\<exists>calls. try_servers nt row date_int save_dir files srvs last_error clog =
           Some ((stock_code row, False,
                  msg_all_failed (if srvs = [] then last_error else Some lit_none_returned)),
                 files, calls)"
  using assms
proof (induction srvs arbitrary: last_error clog)
  case Nil
  then show ?case by simp
next
  case (Cons srv srvs)
  from Cons.prems obtain ps where c: "connect nt srv = Connected"
    and ps: "\<forall>p \<in> set ps. batch_size \<le> length p"
      "serves nt srv (tdx_market row) (stock_code row) date_int 0 (map RData ps @ [RNone])"
    by auto
  have loop: "fetch_loop nt srv (tdx_market row) (stock_code row) date_int 0 [] (clog @ [Connect srv]) =
      Some (ExitNone ([] @ concat ps),
            (clog @ [Connect srv]) @ map (GetHistory srv) (offsets 0 (Suc (length ps))))"
    by (rule fetch_loop_sentinel [OF ps(2) ps(1)])
  from Cons.prems have rest: "\<forall>s \<in> set srvs. connect nt s = Connected \<and>
             (\<exists>ps. (\<forall>p \<in> set ps. batch_size \<le> length p) \<and>
                   serves nt s (tdx_market row) (stock_code row) date_int 0 (map RData ps @ [RNone]))"
    by simp
  from Cons.IH [OF rest, of "Some lit_none_returned"
      "((clog @ [Connect srv]) @ map (GetHistory srv) (offsets 0 (Suc (length ps)))) @ [Disconnect srv]"]
  obtain calls where "try_servers nt row date_int save_dir files srvs (Some lit_none_returned)
      (((clog @ [Connect srv]) @ map (GetHistory srv) (offsets 0 (Suc (length ps)))) @ [Disconnect srv]) =
      Some ((stock_code row, False,
             msg_all_failed (if srvs = [] then Some lit_none_returned else Some lit_none_returned)),
            files, calls)"
    by blast
  with c loop show ?case by simp
qed

lemma all_failed_not_no_data:
  "\<not> str_in lit_no_data (msg_all_failed (Some lit_none_returned))"
  by (simp add: msg_all_failed_def lit_all_failed_def lit_none_returned_def lit_no_data_def startswith_def)

text \<open>
  C2: when every server tried connects and answers with the \<^verbatim>\<open>None\<close> sentinel at
  some offset, after any number of full pages, the outcome is the failure of line 180:
  the success flag is false and the reason is not a no-data reason. Pages accumulated
  before the sentinel change nothing.
\<close>

theorem sentinel_is_failure:
  assumes "files (file_path_of save_dir (stock_code row)) = None"
    and "py_slice_to S retry_count \<noteq> []"
    and "\<forall>srv \<in> set (py_slice_to S retry_count). connect nt srv = Connected \<and>
           (\<exists>ps. (\<forall>p \<in> set ps. batch_size \<le> length p) \<and>
                 serves nt srv (tdx_market row) (stock_code row) date_int 0
                   (map RData ps @ [RNone]))"
  shows "(\<exists>calls. fetch_single_stock S nt files row date_int save_dir retry_count =
            Some ((stock_code row, False, msg_all_failed (Some lit_none_returned)), files, calls)) \<and>
         \<not> str_in lit_no_data (msg_all_failed (Some lit_none_returned))"
  using try_servers_sentinel [OF assms(3), of save_dir files None "[]"] assms(1,2)
    all_failed_not_no_data
  by (simp add: fetch_single_stock_def)

theorem sentinel_is_failure_witness:
  "\<exists>calls. fetch_single_stock [ex_server, ex_server2] ex_net_sentinel Map.empty ex_row 20251216
       ''data'' 3 =
     Some ((''600000'', False, msg_all_failed (Some lit_none_returned)), Map.empty, calls)"
proof -
  have "serves ex_net_sentinel srv 1 ''600000'' 20251216 0 (map RData [replicate 2000 7] @ [RNone])"
    for srv
    by (simp add: ex_net_sentinel_def batch_size_def)
  then have "\<forall>srv \<in> set (py_slice_to [ex_server, ex_server2] 3).
      connect ex_net_sentinel srv = Connected \<and>
      (\<exists>ps. (\<forall>p \<in> set ps. batch_size \<le> length p) \<and>
         serves ex_net_sentinel srv (tdx_market ex_row) (stock_code ex_row) 20251216 0
           (map RData ps @ [RNone]))"
    by (auto simp: ex_net_sentinel_def ex_row_def batch_size_def
        intro!: exI [of _ "[replicate 2000 7]"])
  from sentinel_is_failure [OF _ _ this, of Map.empty "''data''"]
  show ?thesis by (simp add: py_slice_to_def ex_row_def)
qed

text \<open>
  C5: when the artifact of the target already exists, the fetch returns success at
  once, makes no API call at all and leaves the file system as it was.
\<close>

theorem resume_guard:
  "files (file_path_of save_dir (stock_code row)) = Some a \<Longrightarrow>
   fetch_single_stock S nt files row date_int save_dir retry_count =
     Some ((stock_code row, True, lit_file_exists), files, [])"
  by (simp add: fetch_single_stock_def)

theorem resume_guard_witness:
  "fetch_single_stock [ex_server] ex_net_pages
      [''data/600000.parquet'' \<mapsto> Parquet (make_artifact ex_net_pages ex_row 20251215 [1])]
      ex_row 20251216 ''data'' 3 =
     Some ((''600000'', True, lit_file_exists),
           [''data/600000.parquet'' \<mapsto> Parquet (make_artifact ex_net_pages ex_row 20251215 [1])],
           [])"
  using resume_guard [of
      "[''data/600000.parquet'' \<mapsto> Parquet (make_artifact ex_net_pages ex_row 20251215 [1])]"
      "''data''" ex_row "Parquet (make_artifact ex_net_pages ex_row 20251215 [1])" "[ex_server]"
      ex_net_pages 20251216 3]
  by (simp add: ex_row_def file_path_of_def path_join_def startswith_def)

text \<open>
  What a run of the server loop does to the file system and which triple it returns:
  only the path of the target can change; a success comes from a write that completed
  on the records of one server try, and the path then holds their frame; otherwise the
  flag is false and the path has changed only if a write on the records of one server
  try raised and left what the path holds now.
\<close>

lemma try_servers_effect:
  "try_servers nt row d dir files srvs le clog = Some (res, files', calls) \<Longrightarrow>
    (\<forall>q. q \<noteq> file_path_of dir (stock_code row) \<longrightarrow> files' q = files q) \<and>
    ((\<exists>srv \<in> set srvs. \<exists>data cl cl'. data \<noteq> [] \<and>
        fetch_loop nt srv (tdx_market row) (stock_code row) d 0 [] cl = Some (ExitBreak data, cl') \<and>
        save_data nt srv (file_path_of dir (stock_code row)) data = Saved \<and>
        res = (stock_code row, True, msg_downloaded (length data)) \<and>
        files' (file_path_of dir (stock_code row)) = Some (Parquet (make_artifact nt row d data)))
     \<or> ((res = (stock_code row, False, msg_no_data (tdx_market row)) \<or>
          (\<exists>e. res = (stock_code row, False, msg_all_failed e))) \<and>
         (files' (file_path_of dir (stock_code row)) = files (file_path_of dir (stock_code row)) \<or>
          (\<exists>srv \<in> set srvs. \<exists>data cl cl' e. data \<noteq> [] \<and>
             fetch_loop nt srv (tdx_market row) (stock_code row) d 0 [] cl =
               Some (ExitBreak data, cl') \<and>
             save_data nt srv (file_path_of dir (stock_code row)) data =
               SaveRaises e (files' (file_path_of dir (stock_code row)))))))"
proof (induction srvs arbitrary: files le clog)
  case Nil
  then show ?case by auto
next
  case (Cons srv srvs)
  let ?p = "file_path_of dir (stock_code row)"
  have weaken: "\<exists>s \<in> set (srv # srvs). P s" if "\<exists>s \<in> set srvs. P s" for P
    using that by auto
  have step: ?case
    if "try_servers nt row d dir files srvs le' clog' = Some (res, files', calls)" for le' clog'
  proof -
    note ih = Cons.IH [OF that]
    from ih have others: "\<forall>q. q \<noteq> ?p \<longrightarrow> files' q = files q" by simp
    from ih consider
      (ok) "\<exists>s \<in> set srvs. \<exists>data cl cl'. data \<noteq> [] \<and>
          fetch_loop nt s (tdx_market row) (stock_code row) d 0 [] cl =
            Some (ExitBreak data, cl') \<and>
          save_data nt s ?p data = Saved \<and>
          res = (stock_code row, True, msg_downloaded (length data)) \<and>
          files' ?p = Some (Parquet (make_artifact nt row d data))"
      | (same) "res = (stock_code row, False, msg_no_data (tdx_market row)) \<or>
            (\<exists>e. res = (stock_code row, False, msg_all_failed e))"
          "files' ?p = files ?p"
      | (left) "res = (stock_code row, False, msg_no_data (tdx_market row)) \<or>
            (\<exists>e. res = (stock_code row, False, msg_all_failed e))"
          "\<exists>s \<in> set srvs. \<exists>data cl cl' e. data \<noteq> [] \<and>
             fetch_loop nt s (tdx_market row) (stock_code row) d 0 [] cl =
               Some (ExitBreak data, cl') \<and>
             save_data nt s ?p data = SaveRaises e (files' ?p)"
      by blast
    then show ?thesis
    proof cases
      case ok
      from weaken [OF ok] others show ?thesis by blast
    next
      case same
      with others show ?thesis by blast
    next
      case left
      from weaken [OF left(2)] left(1) others show ?thesis by blast
    qed
  qed
  show ?case
  proof (cases "connect nt srv")
    case Connected
    show ?thesis
    proof (cases "fetch_loop nt srv (tdx_market row) (stock_code row) d 0 [] (clog @ [Connect srv])")
      case None
      with Connected Cons.prems show ?thesis by simp
    next
      case (Some r)
      obtain ex cl' where r: "r = (ex, cl')" by (cases r)
      show ?thesis
      proof (cases ex)
        case (ExitNone all_data)
        with Connected Some r Cons.prems show ?thesis by (intro step) simp
      next
        case (ExitBreak all_data)
        have loop: "fetch_loop nt srv (tdx_market row) (stock_code row) d 0 []
            (clog @ [Connect srv]) = Some (ExitBreak all_data, cl')"
          using Some r ExitBreak by simp
        show ?thesis
        proof (cases "all_data = []")
          case True
          with ExitBreak Connected Some r Cons.prems show ?thesis by simp
        next
          case False
          show ?thesis
          proof (cases "save_data nt srv ?p all_data")
            case Saved
            with False ExitBreak Connected Some r Cons.prems
            have "res = (stock_code row, True, msg_downloaded (length all_data))"
              "files' = files(?p \<mapsto> Parquet (make_artifact nt row d all_data))"
              by simp_all
            with loop Saved False show ?thesis by auto
          next
            case (SaveRaises e left)
            with False ExitBreak Connected Some r Cons.prems
            have t: "try_servers nt row d dir (files(?p := left)) srvs (Some e)
                (cl' @ [Disconnect srv, Disconnect srv]) = Some (res, files', calls)"
              by simp
            note ih = Cons.IH [OF t]
            from ih have others: "\<forall>q. q \<noteq> ?p \<longrightarrow> files' q = files q" by simp
            from ih have "(\<exists>s \<in> set srvs. \<exists>data cl cl'. data \<noteq> [] \<and>
                  fetch_loop nt s (tdx_market row) (stock_code row) d 0 [] cl =
                    Some (ExitBreak data, cl') \<and>
                  save_data nt s ?p data = Saved \<and>
                  res = (stock_code row, True, msg_downloaded (length data)) \<and>
                  files' ?p = Some (Parquet (make_artifact nt row d data)))
              \<or> ((res = (stock_code row, False, msg_no_data (tdx_market row)) \<or>
                    (\<exists>e. res = (stock_code row, False, msg_all_failed e))) \<and>
                  (files' ?p = left \<or>
                   (\<exists>s \<in> set srvs. \<exists>data cl cl' e. data \<noteq> [] \<and>
                     fetch_loop nt s (tdx_market row) (stock_code row) d 0 [] cl =
                       Some (ExitBreak data, cl') \<and>
                     save_data nt s ?p data = SaveRaises e (files' ?p))))"
              by simp
            then consider
              (ok) "\<exists>s \<in> set srvs. \<exists>data cl cl'. data \<noteq> [] \<and>
                  fetch_loop nt s (tdx_market row) (stock_code row) d 0 [] cl =
                    Some (ExitBreak data, cl') \<and>
                  save_data nt s ?p data = Saved \<and>
                  res = (stock_code row, True, msg_downloaded (length data)) \<and>
                  files' ?p = Some (Parquet (make_artifact nt row d data))"
              | (kept) "res = (stock_code row, False, msg_no_data (tdx_market row)) \<or>
                    (\<exists>e. res = (stock_code row, False, msg_all_failed e))"
                  "files' ?p = left"
              | (later) "res = (stock_code row, False, msg_no_data (tdx_market row)) \<or>
                    (\<exists>e. res = (stock_code row, False, msg_all_failed e))"
                  "\<exists>s \<in> set srvs. \<exists>data cl cl' e. data \<noteq> [] \<and>
                     fetch_loop nt s (tdx_market row) (stock_code row) d 0 [] cl =
                       Some (ExitBreak data, cl') \<and>
                     save_data nt s ?p data = SaveRaises e (files' ?p)"
              by blast
            then show ?thesis
            proof cases
              case ok
              from weaken [OF ok] others show ?thesis by blast
            next
              case kept
              from loop SaveRaises False kept(2)
              have "\<exists>data cl cl' e. data \<noteq> [] \<and>
                     fetch_loop nt srv (tdx_market row) (stock_code row) d 0 [] cl =
                       Some (ExitBreak data, cl') \<and>
                     save_data nt srv ?p data = SaveRaises e (files' ?p)"
                by blast
              then have "\<exists>s \<in> set (srv # srvs). \<exists>data cl cl' e. data \<noteq> [] \<and>
                     fetch_loop nt s (tdx_market row) (stock_code row) d 0 [] cl =
                       Some (ExitBreak data, cl') \<and>
                     save_data nt s ?p data = SaveRaises e (files' ?p)"
                by simp
              with others kept(1) show ?thesis by blast
            next
              case later
              from weaken [OF later(2)] others later(1) show ?thesis by blast
            qed
          qed
        qed
      next
        case (ExitRaise e)
        with Connected Some r Cons.prems show ?thesis by (intro step) simp
      qed
    qed
  next
    case Refused
    with Cons.prems show ?thesis by (intro step) simp
  next
    case (ConnectRaises e)
    with Cons.prems show ?thesis by (intro step) simp
  qed
qed






text \<open>The cast of line 162 at work: a volume beyond \<^verbatim>\<open>int32\<close> is stored wrapped.\<close>

lemma int32_cast_wraps:
  "art_rows (make_artifact ex_net_vol ex_row 20251216 [3000000000, 12]) = [- 1294967296, 12]"
  by (simp add: make_artifact_def ex_net_vol_def int32_of_def)

section \<open>Properties of the rounds\<close>

lemma fetch_single_stock_code:
  assumes "fetch_single_stock S nt files row d dir rc = Some ((code, ok, msg), files', calls)"
  shows "code = stock_code row"
proof (cases "files (file_path_of dir (stock_code row))")
  case (Some a)
  with assms show ?thesis by (simp add: fetch_single_stock_def)
next
  case None
  with assms have "try_servers nt row d dir files (py_slice_to S rc) None [] =
      Some ((code, ok, msg), files', calls)"
    by (simp add: fetch_single_stock_def)
  from try_servers_effect [OF this] show ?thesis by auto
qed

lemma run_fetches_counts:
  "run_fetches S nt d dir rows files sc fl clog = Some (sc', fl', files', clog') \<Longrightarrow>
   sc' + length fl' = sc + length fl + length rows \<and>
   set (map fst fl') \<subseteq> set (map fst fl) \<union> stock_code ` set rows \<and>
   (distinct (map fst fl @ map stock_code rows) \<longrightarrow> distinct (map fst fl'))"
proof (induction rows arbitrary: files sc fl clog)
  case Nil
  then show ?case by simp
next
  case (Cons row rows)
  from Cons.prems obtain code ok msg f1 c1 where
    f: "fetch_single_stock S (nt row) files row d dir 3 = Some ((code, ok, msg), f1, c1)"
    by (auto split: option.splits)
  then have code: "code = stock_code row" by (rule fetch_single_stock_code)
  show ?case
  proof (cases ok)
    case True
    with f Cons.prems have "run_fetches S nt d dir rows f1 (sc + 1) fl (clog @ c1) =
        Some (sc', fl', files', clog')" by simp
    from Cons.IH [OF this] show ?thesis by auto
  next
    case False
    with f Cons.prems have "run_fetches S nt d dir rows f1 sc (fl @ [(code, msg)]) (clog @ c1) =
        Some (sc', fl', files', clog')" by simp
    from Cons.IH [OF this] code show ?thesis by auto
  qed
qed

lemma download_batch_counts:
  assumes "download_batch S nt fin d dir mw rows files = Some (Inr (sc, fl, files', calls))"
    and "distinct (map stock_code rows)"
  shows "sc + length fl = length rows" "distinct (map fst fl)"
    "set (map fst fl) \<subseteq> stock_code ` set rows"
proof -
  from assms(1) have r: "run_fetches S nt d dir (sort_key fin rows) files 0 [] [] =
      Some (sc, fl, files', calls)"
    by (auto simp: download_batch_def split: if_splits option.splits)
  have "mset (map stock_code (sort_key fin rows)) = mset (map stock_code rows)"
    by simp
  with assms(2) have dist: "distinct (map stock_code (sort_key fin rows))"
    by (metis mset_eq_imp_distinct_iff)
  from run_fetches_counts [OF r] dist
  show "sc + length fl = length rows" "distinct (map fst fl)"
    "set (map fst fl) \<subseteq> stock_code ` set rows"
    by simp_all
qed

lemma length_retry_df:
  assumes "distinct (map stock_code df)" and "distinct (map fst fl)"
    and "set (map fst fl) \<subseteq> stock_code ` set df"
  shows "length (retry_df_of df fl) = length fl"
proof -
  from assms(1) have d: "distinct df" and inj: "inj_on stock_code (set df)"
    by (simp_all add: distinct_map)
  have img: "stock_code ` ({r. stock_code r \<in> C} \<inter> set df) = C"
    if "C \<subseteq> stock_code ` set df" for C
    using that by blast
  have "length (retry_df_of df fl) = card ({r. stock_code r \<in> set (map fst fl)} \<inter> set df)"
    using d by (simp add: retry_df_of_def distinct_length_filter)
  also have "\<dots> = card (stock_code ` ({r. stock_code r \<in> set (map fst fl)} \<inter> set df))"
    by (rule card_image [symmetric]) (rule inj_on_subset [OF inj], blast)
  also have "\<dots> = card (set (map fst fl))"
    by (simp only: img [OF assms(3)])
  also have "\<dots> = length (map fst fl)"
    using assms(2) by (rule distinct_card)
  finally show ?thesis by simp
qed

lemma retry_rounds_counts:
  assumes "retry_rounds S df w d dir mw max_retry retry_round sc fl files trace clog = Some (Inr e)"
    and "distinct (map stock_code df)"
    and "sc + length fl = length df"
    and "distinct (map fst fl)"
    and "set (map fst fl) \<subseteq> stock_code ` set df"
  shows "end_success_count e + length (end_failed_list e) = length df"
  using assms
proof (induction S df w d dir mw max_retry retry_round sc fl files trace clog
    rule: retry_rounds.induct)
  case (1 S df w d dir mw max_retry retry_round sc fl files trace clog)
  show ?case
  proof (cases "fl \<noteq> [] \<and> int retry_round \<le> max_retry")
    case False
    with "1.prems"(1,3) show ?thesis
      by (subst (asm) retry_rounds.simps) auto
  next
    case True
    with "1.prems"(1) obtain rs rf f1 c1 where
      b: "download_batch S (net w retry_round) (finish w retry_round) d dir mw
            (retry_df_of df fl) files = Some (Inr (rs, rf, f1, c1))"
      and rec: "retry_rounds S df w d dir mw max_retry (retry_round + 1) (sc + rs) rf f1
            (trace @ [(mw, retry_df_of df fl, rf)]) (clog @ c1) = Some (Inr e)"
      by (subst (asm) retry_rounds.simps) (auto split: option.splits sum.splits)
    from "1.prems"(2) have dr: "distinct (map stock_code (retry_df_of df fl))"
      by (simp add: retry_df_of_def distinct_map_filter)
    have sub: "stock_code ` set (retry_df_of df fl) \<subseteq> stock_code ` set df"
      by (auto simp: retry_df_of_def)
    from download_batch_counts [OF b dr] sub
    have c: "rs + length rf = length (retry_df_of df fl)" "distinct (map fst rf)"
      "set (map fst rf) \<subseteq> stock_code ` set df"
      by auto
    from c(1) length_retry_df [OF "1.prems"(2,4,5)] "1.prems"(3)
    have "sc + rs + length rf = length df" by simp
    from "1.IH" [OF True b refl refl refl refl rec "1.prems"(2) this c(2,3)]
    show ?thesis .
  qed
qed

text \<open>
  C4: over a universe with pairwise distinct codes, when the rounds return, the success
  count summed over all rounds plus the length of the final failure list is the size of
  the universe; these are the values handed to \<^verbatim>\<open>_generate_report\<close>, and a report
  that is produced shows them with the same sum.
\<close>

theorem report_counts_add_up:
  assumes "distinct (map stock_code stocks_df)"
    and "download_rounds S stocks_df w files date_int max_workers output_dir max_retry =
           Some (Inr e)"
  shows "end_success_count e + length (end_failed_list e) = length stocks_df \<and>
         (\<forall>rep. generate_report stocks_df (end_success_count e) (end_failed_list e) = Inr rep \<longrightarrow>
            rep_success rep + rep_failed rep = rep_total rep \<and>
            rep_total rep = length stocks_df)"
proof -
  define servers where "servers = probed_servers (probe w) S"
  define dir where "dir = output_dir_of output_dir date_int"
  from assms(2) obtain sc fl f1 c1 where
    b: "download_batch servers (net w 0) (finish w 0) date_int dir max_workers stocks_df files =
          Some (Inr (sc, fl, f1, c1))"
    by (auto simp: download_rounds_def Let_def servers_def dir_def
        split: option.splits sum.splits)
  note c = download_batch_counts [OF b assms(1)]
  have sum: "end_success_count e + length (end_failed_list e) = length stocks_df"
  proof (cases "skip_retry stocks_df fl")
    case True
    with assms(2) b c(1) show ?thesis
      by (auto simp: download_rounds_def Let_def servers_def dir_def)
  next
    case False
    with assms(2) b have "retry_rounds servers stocks_df w date_int dir max_workers max_retry 1
        sc fl f1 [(max_workers, stocks_df, fl)] c1 = Some (Inr e)"
      by (simp add: download_rounds_def Let_def servers_def dir_def)
    from retry_rounds_counts [OF this assms(1) c] show ?thesis .
  qed
  then show ?thesis
    by (auto simp: generate_report_def Let_def split: if_splits)
qed

lemma loop_A_X:
  "fetch_loop net_A srv 0 ''000001'' d 0 [] clog =
     Some (ExitBreak records_X,
           clog @ [GetHistory srv 0, GetHistory srv 2000, GetHistory srv 4000])"
proof -
  have "fetch_loop net_A srv 0 ''000001'' d 0 [] clog =
      Some (ExitBreak ([] @ concat [replicate 2000 8, replicate 2000 8, [8]]),
            clog @ map (GetHistory srv)
                     (offsets 0 (length [replicate 2000 (8::nat), replicate 2000 8, [8]])))"
    by (rule fetch_loop_pages) (simp_all add: net_A_def batch_size_def)
  then show ?thesis
    by (simp add: batch_size_def records_X_def numeral_3_eq_3)
qed

lemma loop_A_Y1:
  "fetch_loop net_A ex_server 0 ''000002'' d 0 [] clog =
     Some (ExitNone [], clog @ [GetHistory ex_server 0])"
  by (subst fetch_loop.simps) (simp add: net_A_def batch_size_def)

lemma loop_A_Y2:
  "fetch_loop net_A ex_server2 0 ''000002'' d 0 [] clog =
     Some (ExitBreak [], clog @ [GetHistory ex_server2 0])"
  by (subst fetch_loop.simps) (simp add: net_A_def batch_size_def ex_server_def ex_server2_def)

lemma loop_A_Z:
  "fetch_loop net_A srv 0 ''000003'' d 0 [] clog = Some (ExitBreak [], clog @ [GetHistory srv 0])"
  by (subst fetch_loop.simps) (simp add: net_A_def batch_size_def)

lemma connect_A: "connect net_A srv = Connected"
  by (simp add: net_A_def)

lemma save_A: "save_data net_A srv path all_data = Saved"
  by (simp add: net_A_def)

lemma path_of_code [simp]:
  "file_path_of ''data'' code = (if startswith (code @ ''.parquet'') ''/'' then code @ ''.parquet'' else ''data/'' @ code @ ''.parquet'')"
  by (simp add: file_path_of_def path_join_def)

lemma fetch_A_X:
  "files ''data/000001.parquet'' = None \<Longrightarrow>
   fetch_single_stock [ex_server, ex_server2] net_A files row_X d ''data'' 3 =
     Some ((''000001'', True, msg_downloaded 4001),
           files(''data/000001.parquet'' \<mapsto> Parquet (make_artifact net_A row_X d records_X)),
           [Connect ex_server, GetHistory ex_server 0, GetHistory ex_server 2000,
            GetHistory ex_server 4000, Disconnect ex_server])"
proof -
  have "records_X \<noteq> []" "length records_X = 4001"
    by (simp_all add: records_X_def)
  then show "files ''data/000001.parquet'' = None \<Longrightarrow> ?thesis"
    by (simp add: fetch_single_stock_def py_slice_to_def row_X_def startswith_def loop_A_X
        connect_A save_A)
qed

lemma fetch_A_Y:
  "files ''data/000002.parquet'' = None \<Longrightarrow>
   fetch_single_stock [ex_server, ex_server2] net_A files row_Y d ''data'' 3 =
     Some ((''000002'', False, msg_no_data 0), files,
           [Connect ex_server, GetHistory ex_server 0, Disconnect ex_server,
            Connect ex_server2, GetHistory ex_server2 0, Disconnect ex_server2])"
  by (simp add: fetch_single_stock_def py_slice_to_def row_Y_def startswith_def loop_A_Y1
      loop_A_Y2 connect_A)

lemma fetch_A_Z:
  "files ''data/000003.parquet'' = None \<Longrightarrow>
   fetch_single_stock [ex_server, ex_server2] net_A files row_Z d ''data'' 3 =
     Some ((''000003'', False, msg_no_data 0), files,
           [Connect ex_server, GetHistory ex_server 0, Disconnect ex_server])"
  by (simp add: fetch_single_stock_def py_slice_to_def row_Z_def startswith_def loop_A_Z
      connect_A)

lemma batch_A_round0:
  "download_batch [ex_server, ex_server2] (\<lambda>row. net_A) (\<lambda>row. 0) d ''data'' 10
      [row_X, row_Y, row_Z] Map.empty =
   Some (Inr (1, [(''000002'', msg_no_data 0), (''000003'', msg_no_data 0)],
              [''data/000001.parquet'' \<mapsto> Parquet (make_artifact net_A row_X d records_X)],
              [Connect ex_server, GetHistory ex_server 0, GetHistory ex_server 2000,
               GetHistory ex_server 4000, Disconnect ex_server,
               Connect ex_server, GetHistory ex_server 0, Disconnect ex_server,
               Connect ex_server2, GetHistory ex_server2 0, Disconnect ex_server2,
               Connect ex_server, GetHistory ex_server 0, Disconnect ex_server]))"
  by (simp add: download_batch_def fetch_A_X fetch_A_Y fetch_A_Z)

lemma batch_A_round1:
  "download_batch [ex_server, ex_server2] (\<lambda>row. net_A) (\<lambda>row. 0) d ''data'' 10
      [row_Y, row_Z] [''data/000001.parquet'' \<mapsto> a] =
   Some (Inr (0, [(''000002'', msg_no_data 0), (''000003'', msg_no_data 0)],
              [''data/000001.parquet'' \<mapsto> a],
              [Connect ex_server, GetHistory ex_server 0, Disconnect ex_server,
               Connect ex_server2, GetHistory ex_server2 0, Disconnect ex_server2,
               Connect ex_server, GetHistory ex_server 0, Disconnect ex_server]))"
  by (simp add: download_batch_def fetch_A_Y fetch_A_Z)

lemma retry_df_A:
  "retry_df_of [row_X, row_Y, row_Z] [(''000002'', m), (''000003'', m')] = [row_Y, row_Z]"
  by (simp add: retry_df_of_def row_X_def row_Y_def row_Z_def)

lemma skip_A:
  "\<not> skip_retry [row_X, row_Y, row_Z] [(''000002'', m), (''000003'', m')]"
  by (simp add: skip_retry_def)

lemma run_A:
  "\<exists>e. download_rounds [ex_server, ex_server2] [row_X, row_Y, row_Z] world_A Map.empty 20251216 10
          (Some ''data'') 1 = Some (Inr e) \<and>
       end_success_count e = 1 \<and>
       end_failed_list e = [(''000002'', msg_no_data 0), (''000003'', msg_no_data 0)] \<and>
       end_trace e =
         [(10, [row_X, row_Y, row_Z], [(''000002'', msg_no_data 0), (''000003'', msg_no_data 0)]),
          (10, [row_Y, row_Z], [(''000002'', msg_no_data 0), (''000003'', msg_no_data 0)])]"
  apply (simp add: download_rounds_def probed_servers_def output_dir_of_def test_connectivity_def
      world_A_def batch_A_round0 skip_A)
  apply (subst retry_rounds.simps)
  apply (simp add: retry_df_A batch_A_round1)
  apply (subst retry_rounds.simps)
  apply simp
  done

theorem report_counts_add_up_witness:
  "\<exists>e. download_rounds [ex_server, ex_server2] [row_X, row_Y, row_Z] world_A Map.empty 20251216 10
          (Some ''data'') 1 = Some (Inr e) \<and>
       end_success_count e + length (end_failed_list e) = 3"
proof -
  from run_A obtain e where
    e: "download_rounds [ex_server, ex_server2] [row_X, row_Y, row_Z] world_A Map.empty 20251216 10
          (Some ''data'') 1 = Some (Inr e)"
    by blast
  have "distinct (map stock_code [row_X, row_Y, row_Z])"
    by (simp add: row_X_def row_Y_def row_Z_def)
  from report_counts_add_up [OF this e] e show ?thesis by auto
qed

subsection \<open>One row within a batch\<close>

text \<open>
  The server loop never reads the file system: run on two file systems that agree at the
  path of the target, it returns the same triple and the same calls, and it leaves that
  path the same.
\<close>

lemma try_servers_files:
  "f (file_path_of dir (stock_code row)) = g (file_path_of dir (stock_code row)) \<Longrightarrow>
   try_servers nt row d dir f srvs le clog =
     map_option
       (\<lambda>(res, g', calls).
          (res, f(file_path_of dir (stock_code row) := g' (file_path_of dir (stock_code row))),
           calls))
       (try_servers nt row d dir g srvs le clog)"
proof (induction srvs arbitrary: f g le clog)
  case Nil
  have "f(file_path_of dir (stock_code row) := g (file_path_of dir (stock_code row))) = f"
    using Nil by (simp add: fun_upd_idem)
  then show ?case by (simp del: fun_upd_apply)
next
  case (Cons srv srvs)
  let ?p = "file_path_of dir (stock_code row)"
  have same: "f(?p := g ?p) = f"
    using Cons.prems by (simp add: fun_upd_idem)
  note ih = Cons.IH [where f = f and g = g, OF Cons.prems]
  show ?case
  proof (cases "connect nt srv")
    case Connected
    show ?thesis
    proof (cases "fetch_loop nt srv (tdx_market row) (stock_code row) d 0 [] (clog @ [Connect srv])")
      case None
      with Connected show ?thesis by simp
    next
      case (Some r)
      obtain ex cl' where r: "r = (ex, cl')" by (cases r)
      show ?thesis
      proof (cases ex)
        case (ExitNone all_data)
        with Connected Some r ih show ?thesis by simp
      next
        case (ExitBreak all_data)
        show ?thesis
        proof (cases "all_data = []")
          case True
          with ExitBreak Connected Some r show ?thesis
            by (simp add: same del: fun_upd_apply)
        next
          case False
          show ?thesis
          proof (cases "save_data nt srv ?p all_data")
            case Saved
            with False ExitBreak Connected Some r show ?thesis
              by (simp del: fun_upd_apply add: fun_upd_same)
          next
            case (SaveRaises e left)
            have "(f(?p := left)) ?p = (g(?p := left)) ?p" by simp
            from Cons.IH [where f = "f(?p := left)" and g = "g(?p := left)", OF this]
            have "try_servers nt row d dir (f(?p := left)) srvs (Some e)
                (cl' @ [Disconnect srv, Disconnect srv]) =
              map_option (\<lambda>(res, g', calls). (res, f(?p := g' ?p), calls))
                (try_servers nt row d dir (g(?p := left)) srvs (Some e)
                   (cl' @ [Disconnect srv, Disconnect srv]))"
              by (simp del: fun_upd_apply add: fun_upd_same)
            with SaveRaises False ExitBreak Connected Some r show ?thesis
              by (simp del: fun_upd_apply add: fun_upd_same)
          qed
        qed
      next
        case (ExitRaise e)
        with Connected Some r ih show ?thesis by simp
      qed
    qed
  next
    case Refused
    with ih show ?thesis by simp
  next
    case (ConnectRaises e)
    with ih show ?thesis by simp
  qed
qed

lemma fetch_single_stock_frame:
  assumes "fetch_single_stock S nt Map.empty row d dir rc = Some (res, fs, calls)"
    and "files (file_path_of dir (stock_code row)) = None"
  shows "fetch_single_stock S nt files row d dir rc =
           Some (res, files(file_path_of dir (stock_code row) :=
                              fs (file_path_of dir (stock_code row))), calls)"
proof -
  from assms(1) have t: "try_servers nt row d dir Map.empty (py_slice_to S rc) None [] =
      Some (res, fs, calls)"
    by (simp add: fetch_single_stock_def)
  from assms(2) have "files (file_path_of dir (stock_code row)) =
      Map.empty (file_path_of dir (stock_code row))"
    by simp
  from try_servers_files [where f = files and g = Map.empty and row = row and dir = dir
      and nt = nt and d = d and srvs = "py_slice_to S rc" and le = None and clog = "[]", OF this]
    t assms(2)
  show ?thesis
    by (simp add: fetch_single_stock_def)
qed

lemma fetch_single_stock_other_paths:
  assumes "fetch_single_stock S nt files row d dir rc = Some (res, files', calls)"
    and "p \<noteq> file_path_of dir (stock_code row)"
  shows "files' p = files p"
proof (cases "files (file_path_of dir (stock_code row))")
  case (Some a)
  with assms show ?thesis by (simp add: fetch_single_stock_def)
next
  case None
  with assms have "try_servers nt row d dir files (py_slice_to S rc) None [] =
      Some (res, files', calls)"
    by (simp add: fetch_single_stock_def)
  from try_servers_effect [OF this] assms(2) show ?thesis by auto
qed

lemma fetch_single_stock_keeps:
  assumes "fetch_single_stock S nt files row d dir rc = Some (res, files', calls)"
    and "files p \<noteq> None"
  shows "files' p \<noteq> None"
proof (cases "files (file_path_of dir (stock_code row))")
  case (Some a)
  with assms show ?thesis by (simp add: fetch_single_stock_def)
next
  case None
  with assms(2) have "p \<noteq> file_path_of dir (stock_code row)" by auto
  from fetch_single_stock_other_paths [OF assms(1) this] assms(2) show ?thesis by simp
qed

lemma fetch_empty_success:
  assumes "fetch_single_stock S nt Map.empty row d dir rc = Some ((code, True, msg), fs, calls)"
  shows "fs (file_path_of dir (stock_code row)) \<noteq> None"
proof -
  from assms have "try_servers nt row d dir Map.empty (py_slice_to S rc) None [] =
      Some ((code, True, msg), fs, calls)"
    by (simp add: fetch_single_stock_def)
  from try_servers_effect [OF this] show ?thesis by auto
qed

lemma path_neq_code_neq:
  "file_path_of dir (stock_code r) \<noteq> file_path_of dir (stock_code row) \<Longrightarrow>
   stock_code r \<noteq> stock_code row"
  by auto

lemma run_fetches_failing_row:
  assumes "run_fetches S nt d dir rows files sc fl clog = Some (sc', fl', files', clog')"
    and "\<forall>r \<in> set rows. r \<noteq> row \<longrightarrow>
           file_path_of dir (stock_code r) \<noteq> file_path_of dir (stock_code row)"
    and "files (file_path_of dir (stock_code row)) = None"
    and "fetch_single_stock S (nt row) Map.empty row d dir 3 =
           Some ((code, False, msg), Map.empty, calls)"
  shows "files' (file_path_of dir (stock_code row)) = None \<and> set fl \<subseteq> set fl' \<and>
         (row \<in> set rows \<longrightarrow> (stock_code row, msg) \<in> set fl')"
  using assms(1-3)
proof (induction rows arbitrary: files sc fl clog)
  case Nil
  then show ?case by simp
next
  case (Cons r rows)
  from Cons.prems(1) obtain c ok m f1 c1 where
    f: "fetch_single_stock S (nt r) files r d dir 3 = Some ((c, ok, m), f1, c1)"
    by (auto split: option.splits)
  have rest: "\<forall>x \<in> set rows. x \<noteq> row \<longrightarrow>
      file_path_of dir (stock_code x) \<noteq> file_path_of dir (stock_code row)"
    using Cons.prems(2) by simp
  show ?case
  proof (cases "r = row")
    case True
    have "files(file_path_of dir (stock_code row) := None) = files"
      using Cons.prems(3) by (metis fun_upd_triv)
    with fetch_single_stock_frame [where files = files, OF assms(4) Cons.prems(3)]
    have "fetch_single_stock S (nt row) files row d dir 3 = Some ((code, False, msg), files, calls)"
      by simp
    with f True have eq: "c = code" "ok = False" "m = msg" "f1 = files" by simp_all
    from fetch_single_stock_code [OF assms(4)] have code: "code = stock_code row" .
    from f eq Cons.prems(1) have
      "run_fetches S nt d dir rows files sc (fl @ [(code, msg)]) (clog @ c1) =
         Some (sc', fl', files', clog')" by simp
    from Cons.IH [OF this rest Cons.prems(3)] code show ?thesis by auto
  next
    case False
    with Cons.prems(2) have "file_path_of dir (stock_code row) \<noteq> file_path_of dir (stock_code r)"
      by auto
    from fetch_single_stock_other_paths [OF f this] Cons.prems(3)
    have f1: "f1 (file_path_of dir (stock_code row)) = None" by simp
    show ?thesis
    proof (cases ok)
      case True
      with f Cons.prems(1) have "run_fetches S nt d dir rows f1 (sc + 1) fl (clog @ c1) =
          Some (sc', fl', files', clog')" by simp
      from Cons.IH [OF this rest f1] False show ?thesis by auto
    next
      case ok: False
      with f Cons.prems(1) have "run_fetches S nt d dir rows f1 sc (fl @ [(c, m)]) (clog @ c1) =
          Some (sc', fl', files', clog')" by simp
      from Cons.IH [OF this rest f1] False show ?thesis by auto
    qed
  qed
qed

lemma run_fetches_succeeding_row:
  assumes "run_fetches S nt d dir rows files sc fl clog = Some (sc', fl', files', clog')"
    and "\<forall>r \<in> set rows. r \<noteq> row \<longrightarrow>
           file_path_of dir (stock_code r) \<noteq> file_path_of dir (stock_code row)"
    and "stock_code row \<notin> fst ` set fl"
    and "fetch_single_stock S (nt row) Map.empty row d dir 3 = Some ((code, True, msg), fs, calls)"
  shows "stock_code row \<notin> fst ` set fl' \<and>
         (files (file_path_of dir (stock_code row)) \<noteq> None \<or> row \<in> set rows \<longrightarrow>
            files' (file_path_of dir (stock_code row)) \<noteq> None)"
  using assms(1-3)
proof (induction rows arbitrary: files sc fl clog)
  case Nil
  then show ?case by simp
next
  case (Cons r rows)
  from Cons.prems(1) obtain c ok m f1 c1 where
    f: "fetch_single_stock S (nt r) files r d dir 3 = Some ((c, ok, m), f1, c1)"
    by (auto split: option.splits)
  from fetch_single_stock_code [OF f] have c: "c = stock_code r" .
  have rest: "\<forall>x \<in> set rows. x \<noteq> row \<longrightarrow>
      file_path_of dir (stock_code x) \<noteq> file_path_of dir (stock_code row)"
    using Cons.prems(2) by simp
  show ?case
  proof (cases "r = row")
    case True
    have okf: "ok \<and> f1 (file_path_of dir (stock_code row)) \<noteq> None"
    proof (cases "files (file_path_of dir (stock_code row))")
      case None
      from fetch_single_stock_frame [where files = files, OF assms(4) None] f True
      have "ok" "f1 = files(file_path_of dir (stock_code row) :=
                           fs (file_path_of dir (stock_code row)))" by simp_all
      with fetch_empty_success [OF assms(4)] show ?thesis by auto
    next
      case (Some a)
      with f True show ?thesis by (auto simp: fetch_single_stock_def)
    qed
    with f Cons.prems(1) have "run_fetches S nt d dir rows f1 (sc + 1) fl (clog @ c1) =
        Some (sc', fl', files', clog')" by simp
    from Cons.IH [OF this rest Cons.prems(3)] okf show ?thesis by auto
  next
    case False
    with Cons.prems(2) have pn: "file_path_of dir (stock_code r) \<noteq> file_path_of dir (stock_code row)"
      by auto
    then have cn: "c \<noteq> stock_code row" using c by auto
    have keep: "files (file_path_of dir (stock_code row)) \<noteq> None \<Longrightarrow>
        f1 (file_path_of dir (stock_code row)) \<noteq> None"
      by (rule fetch_single_stock_keeps [OF f])
    show ?thesis
    proof (cases ok)
      case True
      with f Cons.prems(1) have "run_fetches S nt d dir rows f1 (sc + 1) fl (clog @ c1) =
          Some (sc', fl', files', clog')" by simp
      from Cons.IH [OF this rest Cons.prems(3)] False keep show ?thesis by auto
    next
      case ok: False
      with f Cons.prems(1) have r: "run_fetches S nt d dir rows f1 sc (fl @ [(c, m)]) (clog @ c1) =
          Some (sc', fl', files', clog')" by simp
      from cn Cons.prems(3) have "stock_code row \<notin> fst ` set (fl @ [(c, m)])" by auto
      from Cons.IH [OF r rest this] False keep show ?thesis by auto
    qed
  qed
qed

lemma download_batch_failing_row:
  assumes "download_batch S nt fin d dir mw rows files = Some (Inr (sc, fl, files', calls))"
    and "row \<in> set rows"
    and "\<forall>r \<in> set rows. r \<noteq> row \<longrightarrow>
           file_path_of dir (stock_code r) \<noteq> file_path_of dir (stock_code row)"
    and "files (file_path_of dir (stock_code row)) = None"
    and "fetch_single_stock S (nt row) Map.empty row d dir 3 =
           Some ((code, False, msg), Map.empty, calls0)"
  shows "(stock_code row, msg) \<in> set fl" "files' (file_path_of dir (stock_code row)) = None"
proof -
  from assms(1) have r: "run_fetches S nt d dir (sort_key fin rows) files 0 [] [] =
      Some (sc, fl, files', calls)"
    by (auto simp: download_batch_def split: if_splits option.splits)
  from assms(3) have h: "\<forall>r \<in> set (sort_key fin rows). r \<noteq> row \<longrightarrow>
      file_path_of dir (stock_code r) \<noteq> file_path_of dir (stock_code row)"
    by simp
  from run_fetches_failing_row [OF r h assms(4) assms(5)] assms(2)
  show "(stock_code row, msg) \<in> set fl" "files' (file_path_of dir (stock_code row)) = None"
    by simp_all
qed

lemma download_batch_succeeding_row:
  assumes "download_batch S nt fin d dir mw rows files = Some (Inr (sc, fl, files', calls))"
    and "row \<in> set rows"
    and "\<forall>r \<in> set rows. r \<noteq> row \<longrightarrow>
           file_path_of dir (stock_code r) \<noteq> file_path_of dir (stock_code row)"
    and "fetch_single_stock S (nt row) Map.empty row d dir 3 = Some ((code, True, msg), fs, calls0)"
  shows "stock_code row \<notin> fst ` set fl" "files' (file_path_of dir (stock_code row)) \<noteq> None"
proof -
  from assms(1) have r: "run_fetches S nt d dir (sort_key fin rows) files 0 [] [] =
      Some (sc, fl, files', calls)"
    by (auto simp: download_batch_def split: if_splits option.splits)
  from assms(3) have h: "\<forall>r \<in> set (sort_key fin rows). r \<noteq> row \<longrightarrow>
      file_path_of dir (stock_code r) \<noteq> file_path_of dir (stock_code row)"
    by simp
  have "stock_code row \<notin> fst ` set []" by simp
  from run_fetches_succeeding_row [OF r h this assms(4)] assms(2)
  show "stock_code row \<notin> fst ` set fl" "files' (file_path_of dir (stock_code row)) \<noteq> None"
    by simp_all
qed

lemma in_retry_df:
  "row \<in> set df \<Longrightarrow> (stock_code row, m) \<in> set fl \<Longrightarrow> row \<in> set (retry_df_of df fl)"
  by (force simp: retry_df_of_def)

lemma retry_df_subset: "set (retry_df_of df fl) \<subseteq> set df"
  by (auto simp: retry_df_of_def)

lemma retry_rounds_step:
  assumes "retry_rounds S df w d dir mw max_retry rr sc fl files trace clog = Some (Inr e)"
    and "fl \<noteq> []" and "int rr \<le> max_retry"
  shows "\<exists>rs rf f1 c1.
           download_batch S (net w rr) (finish w rr) d dir mw (retry_df_of df fl) files =
             Some (Inr (rs, rf, f1, c1)) \<and>
           retry_rounds S df w d dir mw max_retry (rr + 1) (sc + rs) rf f1
             (trace @ [(mw, retry_df_of df fl, rf)]) (clog @ c1) = Some (Inr e)"
  using assms
  by (subst (asm) retry_rounds.simps) (auto split: option.splits sum.splits)

lemma retry_rounds_stop:
  assumes "retry_rounds S df w d dir mw max_retry rr sc fl files trace clog = Some (Inr e)"
    and "fl = [] \<or> max_retry < int rr"
  shows "e = \<lparr>end_servers = S, end_output_dir = dir, end_success_count = sc,
              end_failed_list = fl, end_files = files, end_trace = trace, end_calls = clog\<rparr>"
  using assms
  by (subst (asm) retry_rounds.simps) auto

subsection \<open>Outcomes with no data\<close>

text \<open>
  C3: a target whose fetch ends with no data is returned with the success flag false;
  the batch records it in the failure list of the round with the no-data reason, and
  the frame that a following retry round is given contains it. The target is one row of
  the batch, its artifact is absent and no other row shares its path.
\<close>

theorem no_data_enters_failure_list:
  assumes "download_batch S nt fin date_int output_dir max_workers rows files =
             Some (Inr (sc, fl, files', calls))"
    and "row \<in> set rows"
    and "\<forall>r \<in> set rows. r \<noteq> row \<longrightarrow>
           file_path_of output_dir (stock_code r) \<noteq> file_path_of output_dir (stock_code row)"
    and "files (file_path_of output_dir (stock_code row)) = None"
    and "fetch_single_stock S (nt row) Map.empty row date_int output_dir 3 =
           Some ((stock_code row, False, msg_no_data (tdx_market row)), Map.empty, calls0)"
  shows "(stock_code row, msg_no_data (tdx_market row)) \<in> set fl \<and>
         row \<in> set (retry_df_of rows fl)"
proof -
  from download_batch_failing_row(1) [OF assms]
  have "(stock_code row, msg_no_data (tdx_market row)) \<in> set fl" .
  with assms(2) show ?thesis by (simp add: in_retry_df)
qed

theorem no_data_enters_failure_list_counterexample:
  "summary (download_rounds [ex_server, ex_server2] [row_X, row_Y, row_Z] world_A Map.empty
      20251216 10 (Some ''data'') 1) =
   Some (1, [(''000002'', msg_no_data 0), (''000003'', msg_no_data 0)],
         [(10, [row_X, row_Y, row_Z], [(''000002'', msg_no_data 0), (''000003'', msg_no_data 0)]),
          (10, [row_Y, row_Z], [(''000002'', msg_no_data 0), (''000003'', msg_no_data 0)])])"
  using run_A by (auto simp: summary_def)

theorem no_data_enters_failure_list_witness:
  "(''000002'', msg_no_data 0) \<in> set [(''000002'', msg_no_data 0), (''000003'', msg_no_data 0)] \<and>
   row_Y \<in> set (retry_df_of [row_X, row_Y, row_Z]
                  [(''000002'', msg_no_data 0), (''000003'', msg_no_data 0)])"
proof -
  have paths: "\<forall>r \<in> set [row_X, row_Y, row_Z]. r \<noteq> row_Y \<longrightarrow>
      file_path_of ''data'' (stock_code r) \<noteq> file_path_of ''data'' (stock_code row_Y)"
    by (simp add: row_X_def row_Y_def row_Z_def startswith_def)
  have fetch: "fetch_single_stock [ex_server, ex_server2] net_A Map.empty row_Y 20251216 ''data'' 3 =
      Some ((stock_code row_Y, False, msg_no_data (tdx_market row_Y)), Map.empty,
            [Connect ex_server, GetHistory ex_server 0, Disconnect ex_server,
             Connect ex_server2, GetHistory ex_server2 0, Disconnect ex_server2])"
    by (simp add: fetch_A_Y) (simp add: row_Y_def)
  from no_data_enters_failure_list [OF batch_A_round0 _ paths _ fetch]
  show ?thesis by (simp add: row_Y_def)
qed

subsection \<open>Skipping the retries\<close>

lemma str_in_prefix: "str_in p (p @ s)"
proof (cases "p @ s")
  case Nil
  then show ?thesis by simp
next
  case (Cons c cs)
  have "take (length p) (p @ s) = p" by simp
  with Cons show ?thesis by (simp add: startswith_def)
qed

lemma no_data_reason: "str_in lit_no_data (msg_no_data market)"
  by (simp add: msg_no_data_def str_in_prefix)

text \<open>
  C7: when the failure list of round 0 holds strictly more than nine tenths of the
  universe and the reason of its first entry contains the no-data literal, no retry
  round is run: the rounds end with the success count, the failure list and the files
  of round 0.
\<close>

theorem retry_skip_rule:
  assumes "download_batch (probed_servers (probe w) S) (net w 0) (finish w 0) date_int
             (output_dir_of output_dir date_int) max_workers stocks_df files =
             Some (Inr (success_count, failed_list, files', calls))"
    and "10 * length failed_list > 9 * length stocks_df"
    and "failed_list = (code, reason) # rest"
    and "str_in lit_no_data reason"
  shows "download_rounds S stocks_df w files date_int max_workers output_dir max_retry =
           Some (Inr \<lparr>end_servers = probed_servers (probe w) S,
                      end_output_dir = output_dir_of output_dir date_int,
                      end_success_count = success_count, end_failed_list = failed_list,
                      end_files = files',
                      end_trace = [(max_workers, stocks_df, failed_list)],
                      end_calls = calls\<rparr>)"
proof -
  from assms(2-4) have "skip_retry stocks_df failed_list"
    by (simp add: skip_retry_def)
  with assms(1) show ?thesis
    by (simp add: download_rounds_def Let_def)
qed

lemma batch_A_YZ:
  "download_batch [ex_server, ex_server2] (\<lambda>row. net_A) (\<lambda>row. 0) d ''data'' 10
      [row_Y, row_Z] Map.empty =
   Some (Inr (0, [(''000002'', msg_no_data 0), (''000003'', msg_no_data 0)], Map.empty,
              [Connect ex_server, GetHistory ex_server 0, Disconnect ex_server,
               Connect ex_server2, GetHistory ex_server2 0, Disconnect ex_server2,
               Connect ex_server, GetHistory ex_server 0, Disconnect ex_server]))"
  by (simp add: download_batch_def fetch_A_Y fetch_A_Z)

theorem retry_skip_rule_witness:
  "summary (download_rounds [ex_server, ex_server2] [row_Y, row_Z] world_A Map.empty 20251216 10
      (Some ''data'') 3) =
   Some (0, [(''000002'', msg_no_data 0), (''000003'', msg_no_data 0)],
         [(10, [row_Y, row_Z], [(''000002'', msg_no_data 0), (''000003'', msg_no_data 0)])])"
proof -
  have b0: "download_batch (probed_servers (probe world_A) [ex_server, ex_server2])
      (net world_A 0) (finish world_A 0) 20251216 (output_dir_of (Some ''data'') 20251216) 10
      [row_Y, row_Z] Map.empty =
      Some (Inr (0, [(''000002'', msg_no_data 0), (''000003'', msg_no_data 0)], Map.empty,
              [Connect ex_server, GetHistory ex_server 0, Disconnect ex_server,
               Connect ex_server2, GetHistory ex_server2 0, Disconnect ex_server2,
               Connect ex_server, GetHistory ex_server 0, Disconnect ex_server]))"
    by (simp add: probed_servers_def test_connectivity_def output_dir_of_def world_A_def
        batch_A_YZ)
  have "10 * length [(''000002'', msg_no_data 0), (''000003'', msg_no_data 0)] >
      9 * length [row_Y, row_Z]"
    by simp
  from retry_skip_rule [OF b0 this refl no_data_reason, of 3]
  show ?thesis by (simp add: summary_def)
qed

lemma stock_code_row_N [simp]: "stock_code (row_N code) = code"
  by (simp add: row_N_def)

lemma loop_A_N:
  "code \<noteq> ''000001'' \<Longrightarrow> code \<noteq> ''000002'' \<Longrightarrow>
   fetch_loop net_A srv 0 code d 0 [] clog = Some (ExitBreak [], clog @ [GetHistory srv 0])"
  by (subst fetch_loop.simps) (simp add: net_A_def batch_size_def)

lemma fetch_A_N:
  "code \<noteq> ''000001'' \<Longrightarrow> code \<noteq> ''000002'' \<Longrightarrow> files (file_path_of ''data'' code) = None \<Longrightarrow>
   fetch_single_stock [ex_server, ex_server2] net_A files (row_N code) d ''data'' 3 =
     Some ((code, False, msg_no_data 0), files,
           [Connect ex_server, GetHistory ex_server 0, Disconnect ex_server])"
  by (simp add: fetch_single_stock_def py_slice_to_def row_N_def loop_A_N connect_A
      del: path_of_code)

lemma batch_C_round0:
  "\<exists>calls. download_batch [ex_server, ex_server2] (\<lambda>row. net_A) (\<lambda>row. 0) d ''data'' 10
      universe_C Map.empty =
   Some (Inr (1, failures_C, [''data/000001.parquet'' \<mapsto> Parquet (make_artifact net_A row_X d records_X)], calls))"
  by (simp add: download_batch_def universe_C_def failures_C_def fetch_A_X fetch_A_Y fetch_A_Z
      fetch_A_N startswith_def)

lemma batch_C_round1:
  "\<exists>calls. download_batch [ex_server, ex_server2] (\<lambda>row. net_A) (\<lambda>row. 0) d ''data'' 10
      (tl universe_C) [''data/000001.parquet'' \<mapsto> a] =
   Some (Inr (0, failures_C, [''data/000001.parquet'' \<mapsto> a], calls))"
  by (simp add: download_batch_def universe_C_def failures_C_def fetch_A_Y fetch_A_Z
      fetch_A_N startswith_def)

lemma retry_df_C: "retry_df_of universe_C failures_C = tl universe_C"
  by (simp add: retry_df_of_def universe_C_def failures_C_def row_X_def row_Y_def row_Z_def)

lemma skip_C: "\<not> skip_retry universe_C failures_C"
  by (simp add: skip_retry_def universe_C_def failures_C_def)

lemma run_C:
  "summary (download_rounds [ex_server, ex_server2] universe_C world_A Map.empty 20251216 10
      (Some ''data'') 1) =
   Some (1, failures_C, [(10, universe_C, failures_C), (10, tl universe_C, failures_C)])"
proof -
  obtain c0 where b0: "download_batch [ex_server, ex_server2] (\<lambda>row. net_A) (\<lambda>row. 0) 20251216
      ''data'' 10 universe_C Map.empty =
      Some (Inr (1, failures_C, [''data/000001.parquet'' \<mapsto> Parquet (make_artifact net_A row_X 20251216 records_X)], c0))"
    using batch_C_round0 by blast
  obtain c1 where b1: "download_batch [ex_server, ex_server2] (\<lambda>row. net_A) (\<lambda>row. 0) 20251216
      ''data'' 10 (tl universe_C) [''data/000001.parquet'' \<mapsto> Parquet (make_artifact net_A row_X 20251216 records_X)] =
      Some (Inr (0, failures_C, [''data/000001.parquet'' \<mapsto> Parquet (make_artifact net_A row_X 20251216 records_X)], c1))"
    using batch_C_round1 by blast
  have ne: "failures_C \<noteq> []" by (simp add: failures_C_def)
  show ?thesis
    apply (simp add: download_rounds_def probed_servers_def output_dir_of_def
        test_connectivity_def world_A_def b0 skip_C)
    apply (subst retry_rounds.simps)
    apply (simp add: retry_df_C b1 ne)
    apply (subst retry_rounds.simps)
    apply (simp add: summary_def)
    done
qed

theorem retry_skip_rule_counterexample:
  "summary (download_rounds [ex_server, ex_server2] universe_C world_A Map.empty 20251216 10
      (Some ''data'') 1) =
   Some (1, failures_C, [(10, universe_C, failures_C), (10, tl universe_C, failures_C)])"
  by (rule run_C)

subsection \<open>The retry budget\<close>

text \<open>
  What a write that raised has left at the path is taken for a finished download by the
  guard of the next round: the target is then reported as a success without a request.
\<close>

lemma guard_after_failed_write:
  "fetch_single_stock [ex_server] ex_net_sentinel [''data/600000.parquet'' \<mapsto> Partial] ex_row
     20251216 ''data'' 3 =
   Some ((''600000'', True, lit_file_exists), [''data/600000.parquet'' \<mapsto> Partial], [])"
  by (simp add: fetch_single_stock_def ex_row_def file_path_of_def path_join_def startswith_def)

text \<open>
  C8: with \<^verbatim>\<open>max_retry = 3\<close> the retry rounds 1, 2 and 3 run after round 0. A target
  that fails in rounds 0, 1 and 2 and succeeds in round 3 is not in the final failure
  list and its artifact is written; four batches have run. Round 0 does not trigger
  the skip of the retries, the artifact of the target is absent at the start and no
  other row shares its path.
\<close>

theorem round_three_success_counts:
  assumes run: "download_rounds S stocks_df w files date_int max_workers output_dir 3 = Some (Inr e)"
    and b0: "download_batch (probed_servers (probe w) S) (net w 0) (finish w 0) date_int
               (output_dir_of output_dir date_int) max_workers stocks_df files =
               Some (Inr (sc0, fl0, files0, calls0))"
    and noskip: "\<not> skip_retry stocks_df fl0"
    and row: "row \<in> set stocks_df"
    and paths: "\<forall>r \<in> set stocks_df. r \<noteq> row \<longrightarrow>
           file_path_of (output_dir_of output_dir date_int) (stock_code r) \<noteq>
           file_path_of (output_dir_of output_dir date_int) (stock_code row)"
    and absent: "files (file_path_of (output_dir_of output_dir date_int) (stock_code row)) = None"
    and fails: "\<forall>r \<in> {0, 1, 2}. \<exists>msg calls.
           fetch_single_stock (probed_servers (probe w) S) (net w r row) Map.empty row date_int
             (output_dir_of output_dir date_int) 3 =
           Some ((stock_code row, False, msg), Map.empty, calls)"
    and succeeds: "fetch_single_stock (probed_servers (probe w) S) (net w 3 row) Map.empty row
             date_int (output_dir_of output_dir date_int) 3 =
           Some ((stock_code row, True, msg3), fs3, calls3)"
  shows "stock_code row \<notin> fst ` set (end_failed_list e) \<and>
         end_files e (file_path_of (output_dir_of output_dir date_int) (stock_code row)) \<noteq> None \<and>
         length (end_trace e) = 4"
proof -
  define servers where "servers = probed_servers (probe w) S"
  define dir where "dir = output_dir_of output_dir date_int"
  define p where "p = file_path_of dir (stock_code row)"
  note b0' = b0 [folded servers_def dir_def]
  have H: "\<forall>r \<in> set rows. r \<noteq> row \<longrightarrow>
      file_path_of dir (stock_code r) \<noteq> file_path_of dir (stock_code row)"
    if "set rows \<subseteq> set stocks_df" for rows
    using that paths by (auto simp: dir_def)
  from fails obtain m0 k0 m1 k1 m2 k2 where
    fail0: "fetch_single_stock servers (net w 0 row) Map.empty row date_int dir 3 =
              Some ((stock_code row, False, m0), Map.empty, k0)"
    and fail1: "fetch_single_stock servers (net w 1 row) Map.empty row date_int dir 3 =
              Some ((stock_code row, False, m1), Map.empty, k1)"
    and fail2: "fetch_single_stock servers (net w 2 row) Map.empty row date_int dir 3 =
              Some ((stock_code row, False, m2), Map.empty, k2)"
    unfolding servers_def dir_def by auto
  note ok3 = succeeds [folded servers_def dir_def]
  from run b0' noskip have rr1:
    "retry_rounds servers stocks_df w date_int dir max_workers 3 1 sc0 fl0 files0
       [(max_workers, stocks_df, fl0)] calls0 = Some (Inr e)"
    by (simp add: download_rounds_def Let_def servers_def dir_def)
  from download_batch_failing_row [OF b0' row H [OF subset_refl] absent [folded dir_def] fail0]
  have in0: "(stock_code row, m0) \<in> set fl0" and f0: "files0 (file_path_of dir (stock_code row)) = None"
    by simp_all
  from in0 have ne0: "fl0 \<noteq> []" by auto
  from retry_rounds_step [OF rr1 ne0] obtain rs1 rf1 f1 c1 where
    b1: "download_batch servers (net w 1) (finish w 1) date_int dir max_workers
           (retry_df_of stocks_df fl0) files0 = Some (Inr (rs1, rf1, f1, c1))"
    and rr2: "retry_rounds servers stocks_df w date_int dir max_workers 3 (1 + 1) (sc0 + rs1) rf1 f1
           ([(max_workers, stocks_df, fl0)] @ [(max_workers, retry_df_of stocks_df fl0, rf1)])
           (calls0 @ c1) = Some (Inr e)"
    by auto
  from download_batch_failing_row [OF b1 in_retry_df [OF row in0] H [OF retry_df_subset] f0 fail1]
  have in1: "(stock_code row, m1) \<in> set rf1" and f1: "f1 (file_path_of dir (stock_code row)) = None"
    by simp_all
  from in1 have ne1: "rf1 \<noteq> []" by auto
  from retry_rounds_step [OF rr2 ne1] obtain rs2 rf2 f2 c2 where
    b2: "download_batch servers (net w 2) (finish w 2) date_int dir max_workers
           (retry_df_of stocks_df rf1) f1 = Some (Inr (rs2, rf2, f2, c2))"
    and rr3: "retry_rounds servers stocks_df w date_int dir max_workers 3 (1 + 1 + 1)
           (sc0 + rs1 + rs2) rf2 f2
           (([(max_workers, stocks_df, fl0)] @ [(max_workers, retry_df_of stocks_df fl0, rf1)]) @
            [(max_workers, retry_df_of stocks_df rf1, rf2)])
           ((calls0 @ c1) @ c2) = Some (Inr e)"
    by (auto simp: numeral_2_eq_2)
  from download_batch_failing_row [OF b2 in_retry_df [OF row in1] H [OF retry_df_subset] f1 fail2]
  have in2: "(stock_code row, m2) \<in> set rf2" and f2: "f2 (file_path_of dir (stock_code row)) = None"
    by simp_all
  from in2 have ne2: "rf2 \<noteq> []" by auto
  from retry_rounds_step [OF rr3 ne2] obtain rs3 rf3 f3 c3 where
    b3: "download_batch servers (net w 3) (finish w 3) date_int dir max_workers
           (retry_df_of stocks_df rf2) f2 = Some (Inr (rs3, rf3, f3, c3))"
    and rr4: "retry_rounds servers stocks_df w date_int dir max_workers 3 (1 + 1 + 1 + 1)
           (sc0 + rs1 + rs2 + rs3) rf3 f3
           ((([(max_workers, stocks_df, fl0)] @ [(max_workers, retry_df_of stocks_df fl0, rf1)]) @
            [(max_workers, retry_df_of stocks_df rf1, rf2)]) @
            [(max_workers, retry_df_of stocks_df rf2, rf3)])
           (((calls0 @ c1) @ c2) @ c3) = Some (Inr e)"
    by (auto simp: numeral_3_eq_3)
  from download_batch_succeeding_row [OF b3 in_retry_df [OF row in2] H [OF retry_df_subset] ok3]
  have out3: "stock_code row \<notin> fst ` set rf3" and f3: "f3 (file_path_of dir (stock_code row)) \<noteq> None"
    by simp_all
  from retry_rounds_stop [OF rr4] have
    "end_failed_list e = rf3" "end_files e = f3" "length (end_trace e) = 4"
    by simp_all
  with out3 f3 show ?thesis by (simp add: dir_def)
qed

lemma loop_sentinel:
  "fetch_loop ex_net_sentinel srv 1 ''600000'' d 0 [] clog =
     Some (ExitNone (replicate 2000 7), clog @ [GetHistory srv 0, GetHistory srv 2000])"
proof -
  have "fetch_loop ex_net_sentinel srv 1 ''600000'' d 0 [] clog =
      Some (ExitNone ([] @ concat [replicate 2000 7]),
            clog @ map (GetHistory srv) (offsets 0 (Suc (length [replicate 2000 (7::nat)]))))"
    by (rule fetch_loop_sentinel) (simp_all add: ex_net_sentinel_def batch_size_def)
  then show ?thesis by (simp add: batch_size_def)
qed

lemma loop_pages:
  "fetch_loop ex_net_pages srv 1 ''600000'' d 0 [] clog =
     Some (ExitBreak (replicate 2000 7 @ [8]), clog @ [GetHistory srv 0, GetHistory srv 2000])"
proof -
  have "fetch_loop ex_net_pages srv 1 ''600000'' d 0 [] clog =
      Some (ExitBreak ([] @ concat [replicate 2000 7, [8]]),
            clog @ map (GetHistory srv) (offsets 0 (length [replicate 2000 (7::nat), [8]])))"
    by (rule fetch_loop_pages) (simp_all add: ex_net_pages_def batch_size_def)
  then show ?thesis by (simp add: batch_size_def numeral_2_eq_2)
qed

lemma stock_code_ex_row: "stock_code ex_row = ''600000''"
  by (simp add: ex_row_def)

lemma connect_sentinel: "connect ex_net_sentinel srv = Connected"
  by (simp add: ex_net_sentinel_def)

lemma connect_pages: "connect ex_net_pages srv = Connected"
  by (simp add: ex_net_pages_def)

lemma save_pages: "save_data ex_net_pages srv path all_data = Saved"
  by (simp add: ex_net_pages_def)

lemma fetch_D_fail:
  "files ''data/600000.parquet'' = None \<Longrightarrow>
   fetch_single_stock [ex_server, ex_server2] ex_net_sentinel files ex_row d ''data'' 3 =
     Some ((''600000'', False, snd failure_D), files,
           [Connect ex_server, GetHistory ex_server 0, GetHistory ex_server 2000,
            Disconnect ex_server,
            Connect ex_server2, GetHistory ex_server2 0, GetHistory ex_server2 2000,
            Disconnect ex_server2])"
  by (simp add: fetch_single_stock_def py_slice_to_def ex_row_def startswith_def loop_sentinel
      connect_sentinel failure_D_def)

lemma fetch_D_ok:
  "files ''data/600000.parquet'' = None \<Longrightarrow>
   fetch_single_stock [ex_server, ex_server2] ex_net_pages files ex_row d ''data'' 3 =
     Some ((''600000'', True, msg_downloaded 2001),
           files(''data/600000.parquet'' \<mapsto> Parquet (make_artifact ex_net_pages ex_row d (replicate 2000 7 @ [8]))),
           [Connect ex_server, GetHistory ex_server 0, GetHistory ex_server 2000,
            Disconnect ex_server])"
  by (simp add: fetch_single_stock_def py_slice_to_def ex_row_def startswith_def loop_pages
      connect_pages save_pages)

lemma batch_D_fail:
  "\<exists>calls. download_batch [ex_server, ex_server2] (\<lambda>row. ex_net_sentinel) (\<lambda>row. 0) d ''data'' 10
      [ex_row] Map.empty = Some (Inr (0, [failure_D], Map.empty, calls))"
  by (simp add: download_batch_def fetch_D_fail failure_D_def)

lemma batch_D_ok:
  "\<exists>calls. download_batch [ex_server, ex_server2] (\<lambda>row. ex_net_pages) (\<lambda>row. 0) d ''data'' 10
      [ex_row] Map.empty =
     Some (Inr (1, [], [''data/600000.parquet'' \<mapsto> Parquet (make_artifact ex_net_pages ex_row d (replicate 2000 7 @ [8]))],
                calls))"
  by (simp add: download_batch_def fetch_D_ok)

lemma retry_df_D: "retry_df_of [ex_row] [failure_D] = [ex_row]"
  by (simp add: retry_df_of_def failure_D_def ex_row_def)

lemma skip_D: "\<not> skip_retry [ex_row] [failure_D]"
  using all_failed_not_no_data by (simp add: skip_retry_def failure_D_def)

lemma run_D:
  "\<exists>e. download_rounds [ex_server, ex_server2] [ex_row] world_D Map.empty 20251216 10
          (Some ''data'') 3 = Some (Inr e) \<and>
       end_success_count e = 1 \<and> end_failed_list e = [] \<and>
       end_trace e = [(10, [ex_row], [failure_D]), (10, [ex_row], [failure_D]),
                      (10, [ex_row], [failure_D]), (10, [ex_row], [])]"
proof -
  obtain c0 where b0: "download_batch [ex_server, ex_server2] (\<lambda>row. ex_net_sentinel) (\<lambda>row. 0)
      20251216 ''data'' 10 [ex_row] Map.empty = Some (Inr (0, [failure_D], Map.empty, c0))"
    using batch_D_fail by blast
  obtain c3 where b3: "download_batch [ex_server, ex_server2] (\<lambda>row. ex_net_pages) (\<lambda>row. 0)
      20251216 ''data'' 10 [ex_row] Map.empty =
      Some (Inr (1, [], [''data/600000.parquet'' \<mapsto>
                           Parquet (make_artifact ex_net_pages ex_row 20251216 (replicate 2000 7 @ [8]))], c3))"
    using batch_D_ok by blast
  show ?thesis
    apply (simp add: download_rounds_def probed_servers_def output_dir_of_def
        test_connectivity_def world_D_def b0 skip_D)
    apply (subst retry_rounds.simps)
    apply (simp add: retry_df_D b0)
    apply (subst retry_rounds.simps)
    apply (simp add: retry_df_D b0)
    apply (subst retry_rounds.simps)
    apply (simp add: retry_df_D b3)
    apply (subst retry_rounds.simps)
    apply simp
    done
qed

theorem round_three_success_counts_counterexample:
  "summary (download_rounds [ex_server, ex_server2] [ex_row] world_D Map.empty 20251216 10
      (Some ''data'') 3) =
   Some (1, [], [(10, [ex_row], [failure_D]), (10, [ex_row], [failure_D]),
                 (10, [ex_row], [failure_D]), (10, [ex_row], [])])"
  using run_D by (auto simp: summary_def)

theorem round_three_success_counts_witness:
  "\<exists>e. download_rounds [ex_server, ex_server2] [ex_row] world_D Map.empty 20251216 10
          (Some ''data'') 3 = Some (Inr e) \<and>
       ''600000'' \<notin> fst ` set (end_failed_list e) \<and>
       end_files e ''data/600000.parquet'' \<noteq> None \<and>
       length (end_trace e) = 4"
proof -
  from run_D obtain e where
    e: "download_rounds [ex_server, ex_server2] [ex_row] world_D Map.empty 20251216 10
          (Some ''data'') 3 = Some (Inr e)"
    by blast
  obtain c0 where b0: "download_batch [ex_server, ex_server2] (\<lambda>row. ex_net_sentinel) (\<lambda>row. 0)
      20251216 ''data'' 10 [ex_row] Map.empty = Some (Inr (0, [failure_D], Map.empty, c0))"
    using batch_D_fail by blast
  note servers = probed_servers_def test_connectivity_def
  have dir: "output_dir_of (Some ''data'') 20251216 = ''data''"
    by (simp add: output_dir_of_def)
  have b0': "download_batch (probed_servers (probe world_D) [ex_server, ex_server2])
      (net world_D 0) (finish world_D 0) 20251216 (output_dir_of (Some ''data'') 20251216) 10
      [ex_row] Map.empty = Some (Inr (0, [failure_D], Map.empty, c0))"
    using b0 by (simp add: servers dir world_D_def)
  have fails: "\<forall>r \<in> {0, 1, 2}. \<exists>msg calls.
      fetch_single_stock (probed_servers (probe world_D) [ex_server, ex_server2])
        (net world_D r ex_row) Map.empty ex_row 20251216
        (output_dir_of (Some ''data'') 20251216) 3 =
      Some ((stock_code ex_row, False, msg), Map.empty, calls)"
    by (simp add: servers dir world_D_def fetch_D_fail failure_D_def stock_code_ex_row)
  have ok: "fetch_single_stock (probed_servers (probe world_D) [ex_server, ex_server2])
        (net world_D 3 ex_row) Map.empty ex_row 20251216
        (output_dir_of (Some ''data'') 20251216) 3 =
      Some ((stock_code ex_row, True, msg_downloaded 2001),
            [''data/600000.parquet'' \<mapsto>
               Parquet (make_artifact ex_net_pages ex_row 20251216 (replicate 2000 7 @ [8]))],
            [Connect ex_server, GetHistory ex_server 0, GetHistory ex_server 2000,
             Disconnect ex_server])"
    by (simp add: servers dir world_D_def fetch_D_ok stock_code_ex_row)
  from round_three_success_counts [OF e b0' skip_D _ _ _ fails ok] e
  show ?thesis by (auto simp: dir stock_code_ex_row startswith_def)
qed

subsection \<open>Workers and inputs across the rounds of \<^verbatim>\<open>download_all_stocks\<close>\<close>

lemma trace_ok_snoc:
  "trace_ok mw df (tr @ [(m, rows, fl)]) \<Longrightarrow>
   trace_ok mw df ((tr @ [(m, rows, fl)]) @ [(mw, retry_df_of df fl, fl')])"
  by (induction mw df tr rule: trace_ok.induct) auto

lemma retry_rounds_trace:
  assumes "retry_rounds S df w d dir mw max_retry rr sc fl files (tr @ [(m, rows, fl)]) clog =
             Some (Inr e)"
    and "trace_ok mw df (tr @ [(m, rows, fl)])"
  shows "trace_ok mw df (end_trace e)"
  using assms
proof (induction S df w d dir mw max_retry rr sc fl files "tr @ [(m, rows, fl)]" clog
    arbitrary: tr m rows rule: retry_rounds.induct)
  case (1 S df w d dir mw max_retry rr sc fl files clog)
  show ?case
  proof (cases "fl \<noteq> [] \<and> int rr \<le> max_retry")
    case False
    with "1.prems" show ?thesis
      by (subst (asm) retry_rounds.simps) auto
  next
    case True
    with "1.prems"(1) obtain rs rf f1 c1 where
      b: "download_batch S (net w rr) (finish w rr) d dir mw (retry_df_of df fl) files =
            Some (Inr (rs, rf, f1, c1))"
      and rec: "retry_rounds S df w d dir mw max_retry (rr + 1) (sc + rs) rf f1
            ((tr @ [(m, rows, fl)]) @ [(mw, retry_df_of df fl, rf)]) (clog @ c1) = Some (Inr e)"
      by (subst (asm) retry_rounds.simps) (auto split: option.splits sum.splits)
    from trace_ok_snoc [OF "1.prems"(2)]
    have ok: "trace_ok mw df ((tr @ [(m, rows, fl)]) @ [(mw, retry_df_of df fl, rf)])" .
    from "1.hyps" [OF True b refl refl refl refl _ rec ok] show ?thesis by simp
  qed
qed

lemma download_rounds_trace:
  assumes "download_rounds S df w files d mw dir max_retry = Some (Inr e)"
  shows "trace_ok mw df (end_trace e)"
proof -
  from assms obtain sc fl f1 c1 where
    b: "download_batch (probed_servers (probe w) S) (net w 0) (finish w 0) d
          (output_dir_of dir d) mw df files = Some (Inr (sc, fl, f1, c1))"
    by (auto simp: download_rounds_def Let_def split: option.splits sum.splits)
  show ?thesis
  proof (cases "skip_retry df fl")
    case True
    with assms b show ?thesis by (auto simp: download_rounds_def Let_def)
  next
    case False
    with assms b have "retry_rounds (probed_servers (probe w) S) df w d (output_dir_of dir d) mw
        max_retry 1 sc fl f1 ([] @ [(mw, df, fl)]) c1 = Some (Inr e)"
      by (simp add: download_rounds_def Let_def)
    from retry_rounds_trace [OF this] show ?thesis by simp
  qed
qed

section \<open>Properties of the point lookup and of its retry rounds\<close>

text \<open>
  C9: the namespace is 1 for a code that starts with 6 and 0 for every other code; one
  call issues exactly one request, to that address; a returned result carries the code
  and never the placeholder; and a response whose parsed field is the placeholder
  yields no result.
\<close>

theorem point_lookup:
  "secid_of code = (if startswith code ''6'' then ''1.'' @ code else ''0.'' @ code) \<and>
   snd (get_stock_pre_close_single http_get code) = [secid_of code] \<and>
   (\<forall>r. fst (get_stock_pre_close_single http_get code) = Some r \<longrightarrow>
        fst r = code \<and> snd r \<noteq> JStr ''-'') \<and>
   (\<forall>status_code data inner.
      http_get (secid_of code) = HttpResponse status_code (Some (JObj data)) \<and>
      dict_get data ''data'' = JObj inner \<and> dict_get inner ''f60'' = JStr ''-'' \<longrightarrow>
      fst (get_stock_pre_close_single http_get code) = None)"
proof (intro conjI allI impI)
  show "secid_of code = (if startswith code ''6'' then ''1.'' @ code else ''0.'' @ code)"
    by (simp add: secid_of_def)
  show "snd (get_stock_pre_close_single http_get code) = [secid_of code]"
    by (simp add: get_stock_pre_close_single_def Let_def)
  show "fst r = code" if "fst (get_stock_pre_close_single http_get code) = Some r" for r
    using that
    by (auto simp: get_stock_pre_close_single_def Let_def
        split: http_result.splits if_splits option.splits json.splits)
  show "snd r \<noteq> JStr ''-''" if "fst (get_stock_pre_close_single http_get code) = Some r" for r
    using that
    by (auto simp: get_stock_pre_close_single_def Let_def
        split: http_result.splits if_splits option.splits json.splits)
  show "fst (get_stock_pre_close_single http_get code) = None"
    if "http_get (secid_of code) = HttpResponse status_code (Some (JObj data)) \<and>
      dict_get data ''data'' = JObj inner \<and> dict_get inner ''f60'' = JStr ''-''"
    for status_code data inner
    using that by (simp add: get_stock_pre_close_single_def Let_def)
qed

theorem point_lookup_witness:
  "get_stock_pre_close_single ex_http_placeholder ''600000'' = (None, [''1.600000'']) \<and>
   get_stock_pre_close_single ex_http_price ''000001'' =
     (Some (''000001'', JNum 1234), [''0.000001''])"
proof -
  have a: "fst (get_stock_pre_close_single ex_http_placeholder ''600000'') = None"
    using point_lookup [of "''600000''" ex_http_placeholder]
    by (simp add: ex_http_placeholder_def dict_get_def)
  have b: "snd (get_stock_pre_close_single ex_http_placeholder ''600000'') = [''1.600000'']"
    using point_lookup [of "''600000''" ex_http_placeholder]
    by (simp add: startswith_def)
  have c: "get_stock_pre_close_single ex_http_price ''000001'' =
     (Some (''000001'', JNum 1234), [''0.000001''])"
    by (simp add: get_stock_pre_close_single_def ex_http_price_def dict_get_def secid_of_def
        startswith_def)
  from a b c show ?thesis by (simp add: prod_eq_iff)
qed

subsection \<open>The workers of a retry round\<close>

lemma bit_length_le: "a < 2 ^ k \<Longrightarrow> bit_length a \<le> k"
proof (induction k arbitrary: a)
  case 0
  then have "a = 0" by simp
  then show ?case by (simp add: bit_length.simps)
next
  case (Suc k)
  show ?case
  proof (cases "a = 0")
    case True
    then show ?thesis by (simp add: bit_length.simps)
  next
    case False
    from Suc.prems have "a div 2 < 2 ^ k" by simp
    from Suc.IH [OF this] False show ?thesis
      by (subst bit_length.simps) simp
  qed
qed

text \<open>An int below \<open>2^53\<close> in magnitude is a double: the conversion is exact.\<close>

lemma float_of_int_exact:
  assumes "\<bar>n\<bar> < 2 ^ 53"
  shows "float_of_int n = Inr n"
proof -
  from assms have a: "nat \<bar>n\<bar> < 2 ^ 53"
    by (simp add: nat_less_iff)
  from bit_length_le [OF a] have k: "bit_length (nat \<bar>n\<bar>) - 53 = 0" by simp
  have "(2::nat) ^ 53 \<le> 2 ^ 1024"
    by (rule power_increasing) simp_all
  with a have small: "\<not> 2 ^ 1024 \<le> nat \<bar>n\<bar>" by linarith
  have "sgn n * \<bar>n\<bar> = n"
    by (cases "n < 0") (auto simp: sgn_if)
  with small show ?thesis
    by (simp add: float_of_int_def k Let_def del: power_numeral)
qed

lemma py_int_half_small:
  "0 \<le> n \<Longrightarrow> n < 2 ^ 53 \<Longrightarrow> py_int_half n = Inr (n div 2)"
  by (simp add: py_int_half_def float_of_int_exact)

lemma retry_workers_small:
  "0 \<le> max_workers \<Longrightarrow> max_workers < 2 ^ 53 \<Longrightarrow>
   retry_workers_of max_workers = Inr (max 5 (max_workers div 2))"
  by (simp add: retry_workers_of_def py_int_half_small)

lemma retry_workers_le:
  "5 \<le> max_workers \<Longrightarrow> max_workers < 2 ^ 53 \<Longrightarrow>
   \<exists>retry_workers. retry_workers_of max_workers = Inr retry_workers \<and> retry_workers \<le> max_workers"
  by (simp add: retry_workers_small)

lemma retry_workers_rise:
  "0 < max_workers \<Longrightarrow> max_workers < 5 \<Longrightarrow> retry_workers_of max_workers = Inr 5"
  by (simp add: retry_workers_small)

lemma retry_workers_floor:
  "retry_workers_of max_workers = Inr retry_workers \<Longrightarrow> 5 \<le> retry_workers"
  by (auto simp: retry_workers_of_def split: sum.splits)

text \<open>
  From \<open>2^53\<close> on the halving goes through the nearest double: \<open>2^53 + 3\<close> is converted
  to \<open>2^53 + 4\<close>, so the result is one more than the exact half rounded down.
\<close>

lemma bit_length_example: "bit_length 9007199254740995 = 54"
  by (simp add: bit_length.simps)

lemma py_int_half_rounds: "py_int_half 9007199254740995 = Inr 4503599627370498"
  by (simp add: py_int_half_def float_of_int_def bit_length_example Let_def)

text \<open>
  C6: with \<^verbatim>\<open>max_workers = 2\<close> and a code whose request fails in every round,
  \<^verbatim>\<open>download_pre_close_parallel\<close> runs the first download with 2 workers and each
  of the three retry rounds with 5.
\<close>

theorem pre_close_concurrency_rises:
  "download_pre_close_parallel ex_pc_world_down [''000001''] 2 3 =
     Inr ([], [''000001''],
          [(2, [''000001'']), (5, [''000001'']), (5, [''000001'']), (5, [''000001''])])"
proof -
  have "[0..<nat 3] = [0, 1, 2]"
    by code_simp
  moreover have "retry_workers_of 2 = Inr 5"
    by (rule retry_workers_rise) simp_all
  ultimately show ?thesis
    by (simp add: download_pre_close_parallel_def download_batch_internal_def
        get_stock_pre_close_single_def ex_pc_world_down_def ex_http_down_def)
qed

end
